theory Spec2Isabelle
  imports Main "HOL-Library.Word"
begin

section \<open>Register masks (remill/BC/Mask.h)\<close>

text \<open>
  A mask is a container of flags indexed from 0 (\<open>std::vector<bool>\<close> or a bitset); it is
  modelled as a list. Indices are \<open>uint64_t\<close> values below \<open>mask.size()\<close> and the counter
  is an \<open>int64_t\<close> that is incremented at most \<open>mask.size()\<close> times, so neither can wrap
  and both are modelled unbounded (\<open>nat\<close> and \<open>int\<close>).
\<close>

text \<open>
  The loop of the four-argument \<open>NthIndex\<close>: \<open>i\<close> is the loop index, \<open>counter\<close> the number
  of matches seen so far minus one, \<open>offset\<close> the caller's variable behind the reference.
  The result is the returned flag and the final content of \<open>offset\<close>.
\<close>

function NthIndex_loop :: "'a list \<Rightarrow> 'a \<Rightarrow> int \<Rightarrow> nat \<Rightarrow> int \<Rightarrow> nat \<Rightarrow> bool \<times> nat" where
  "NthIndex_loop msk val n i counter offset =
     (if i < length msk then
        (if msk ! i = val then
           (if counter + 1 = n then (True, i)
            else NthIndex_loop msk val n (i + 1) (counter + 1) offset)
         else NthIndex_loop msk val n (i + 1) counter offset)
      else (False, offset))"
  by pat_completeness auto
termination
  by (relation "measure (\<lambda>(msk, val, n, i, counter, offset). length msk - i)") auto

declare NthIndex_loop.simps [simp del]

definition NthIndex :: "'a list \<Rightarrow> 'a \<Rightarrow> int \<Rightarrow> nat \<Rightarrow> bool \<times> nat" where
  "NthIndex msk val n offset =
     (if n < 0 then (False, offset) else NthIndex_loop msk val n 0 (- 1) offset)"

text \<open>The loop of \<open>GMask::Nth\<close>; the empty optional is \<open>None\<close>.\<close>

function Nth_loop :: "bool list \<Rightarrow> bool \<Rightarrow> int \<Rightarrow> nat \<Rightarrow> int \<Rightarrow> nat option" where
  "Nth_loop msk val n i counter =
     (if i < length msk then
        (if msk ! i = val then
           (if counter + 1 = n then Some i
            else Nth_loop msk val n (i + 1) (counter + 1))
         else Nth_loop msk val n (i + 1) counter)
      else None)"
  by pat_completeness auto
termination
  by (relation "measure (\<lambda>(msk, val, n, i, counter). length msk - i)") auto

declare Nth_loop.simps [simp del]

definition Nth :: "bool list \<Rightarrow> int \<Rightarrow> bool \<Rightarrow> nat option" where
  "Nth msk n val = (if n < 0 then None else Nth_loop msk val n 0 (- 1))"

text \<open>
  The specification's reading of the result: the zero-based \<open>n\<close>-th of the indices whose
  element equals \<open>val\<close>, when there are more than \<open>n\<close> of them and \<open>n\<close> is not negative.
\<close>

definition matching_indices :: "'a list \<Rightarrow> 'a \<Rightarrow> nat list" where
  "matching_indices msk val = filter (\<lambda>i. msk ! i = val) [0..<length msk]"

definition nth_matching_index :: "'a list \<Rightarrow> 'a \<Rightarrow> int \<Rightarrow> nat option" where
  "nth_matching_index msk val n =
     (if 0 \<le> n \<and> nat n < length (matching_indices msk val)
      then Some (matching_indices msk val ! nat n) else None)"

section \<open>The x86 instruction lifter (mcsema/Arch/X86/Instr.cpp)\<close>

subsection \<open>The decoder's view of an instruction\<close>

text \<open>
  The lifter reads an instruction only through the accessors of the XED decoder. The XED
  enumerations are declared in the decoder's headers, outside this repository; the model
  lists the tags the lifter names, and a few ordinary ones beside them.
\<close>

datatype xed_iclass_enum_t =
    XED_ICLASS_INVALID | XED_ICLASS_ADD | XED_ICLASS_CALL_FAR | XED_ICLASS_CALL_NEAR
  | XED_ICLASS_HLT | XED_ICLASS_INT | XED_ICLASS_INT1 | XED_ICLASS_INT3 | XED_ICLASS_INTO
  | XED_ICLASS_IRET | XED_ICLASS_IRETD | XED_ICLASS_IRETQ
  | XED_ICLASS_JB | XED_ICLASS_JBE | XED_ICLASS_JCXZ | XED_ICLASS_JECXZ | XED_ICLASS_JL
  | XED_ICLASS_JLE | XED_ICLASS_JMP | XED_ICLASS_JMP_FAR
  | XED_ICLASS_JNB | XED_ICLASS_JNBE | XED_ICLASS_JNL | XED_ICLASS_JNLE | XED_ICLASS_JNO
  | XED_ICLASS_JNP | XED_ICLASS_JNS | XED_ICLASS_JNZ | XED_ICLASS_JO | XED_ICLASS_JP
  | XED_ICLASS_JRCXZ | XED_ICLASS_JS | XED_ICLASS_JZ
  | XED_ICLASS_LOOP | XED_ICLASS_LOOPE | XED_ICLASS_LOOPNE
  | XED_ICLASS_NOP | XED_ICLASS_POP
  | XED_ICLASS_RET_FAR | XED_ICLASS_RET_NEAR
  | XED_ICLASS_SYSCALL | XED_ICLASS_SYSCALL_AMD | XED_ICLASS_SYSENTER | XED_ICLASS_SYSEXIT
  | XED_ICLASS_SYSRET | XED_ICLASS_SYSRET_AMD
  | XED_ICLASS_XABORT | XED_ICLASS_XBEGIN | XED_ICLASS_XEND

text \<open>
  The position of a tag in the enumeration, which the range tests of the classifier
  compare. XED lists its instruction classes in alphabetical order; the positions below
  keep that order.
\<close>

fun iclass_enum :: "xed_iclass_enum_t \<Rightarrow> nat" where
  "iclass_enum XED_ICLASS_INVALID = 0"
| "iclass_enum XED_ICLASS_ADD = 1"
| "iclass_enum XED_ICLASS_CALL_FAR = 2"
| "iclass_enum XED_ICLASS_CALL_NEAR = 3"
| "iclass_enum XED_ICLASS_HLT = 4"
| "iclass_enum XED_ICLASS_INT = 5"
| "iclass_enum XED_ICLASS_INT1 = 6"
| "iclass_enum XED_ICLASS_INT3 = 7"
| "iclass_enum XED_ICLASS_INTO = 8"
| "iclass_enum XED_ICLASS_IRET = 9"
| "iclass_enum XED_ICLASS_IRETD = 10"
| "iclass_enum XED_ICLASS_IRETQ = 11"
| "iclass_enum XED_ICLASS_JB = 12"
| "iclass_enum XED_ICLASS_JBE = 13"
| "iclass_enum XED_ICLASS_JCXZ = 14"
| "iclass_enum XED_ICLASS_JECXZ = 15"
| "iclass_enum XED_ICLASS_JL = 16"
| "iclass_enum XED_ICLASS_JLE = 17"
| "iclass_enum XED_ICLASS_JMP = 18"
| "iclass_enum XED_ICLASS_JMP_FAR = 19"
| "iclass_enum XED_ICLASS_JNB = 20"
| "iclass_enum XED_ICLASS_JNBE = 21"
| "iclass_enum XED_ICLASS_JNL = 22"
| "iclass_enum XED_ICLASS_JNLE = 23"
| "iclass_enum XED_ICLASS_JNO = 24"
| "iclass_enum XED_ICLASS_JNP = 25"
| "iclass_enum XED_ICLASS_JNS = 26"
| "iclass_enum XED_ICLASS_JNZ = 27"
| "iclass_enum XED_ICLASS_JO = 28"
| "iclass_enum XED_ICLASS_JP = 29"
| "iclass_enum XED_ICLASS_JRCXZ = 30"
| "iclass_enum XED_ICLASS_JS = 31"
| "iclass_enum XED_ICLASS_JZ = 32"
| "iclass_enum XED_ICLASS_LOOP = 33"
| "iclass_enum XED_ICLASS_LOOPE = 34"
| "iclass_enum XED_ICLASS_LOOPNE = 35"
| "iclass_enum XED_ICLASS_NOP = 36"
| "iclass_enum XED_ICLASS_POP = 37"
| "iclass_enum XED_ICLASS_RET_FAR = 38"
| "iclass_enum XED_ICLASS_RET_NEAR = 39"
| "iclass_enum XED_ICLASS_SYSCALL = 40"
| "iclass_enum XED_ICLASS_SYSCALL_AMD = 41"
| "iclass_enum XED_ICLASS_SYSENTER = 42"
| "iclass_enum XED_ICLASS_SYSEXIT = 43"
| "iclass_enum XED_ICLASS_SYSRET = 44"
| "iclass_enum XED_ICLASS_SYSRET_AMD = 45"
| "iclass_enum XED_ICLASS_XABORT = 46"
| "iclass_enum XED_ICLASS_XBEGIN = 47"
| "iclass_enum XED_ICLASS_XEND = 48"

datatype xed_operand_enum_t =
    XED_OPERAND_INVALID | XED_OPERAND_AGEN | XED_OPERAND_BASE0 | XED_OPERAND_BASE1
  | XED_OPERAND_IMM0 | XED_OPERAND_IMM0SIGNED | XED_OPERAND_IMM1 | XED_OPERAND_IMM1_BYTES
  | XED_OPERAND_INDEX | XED_OPERAND_MEM0 | XED_OPERAND_MEM1 | XED_OPERAND_PTR
  | XED_OPERAND_REG0 | XED_OPERAND_REG1 | XED_OPERAND_REG2 | XED_OPERAND_REG3
  | XED_OPERAND_REG4 | XED_OPERAND_RELBR | XED_OPERAND_SEG0 | XED_OPERAND_SEG1

datatype xed_operand_visibility_enum_t =
    XED_OPVIS_INVALID | XED_OPVIS_EXPLICIT | XED_OPVIS_IMPLICIT | XED_OPVIS_SUPPRESSED

datatype xed_reg_enum_t =
    XED_REG_INVALID
  | XED_REG_RAX | XED_REG_EAX | XED_REG_AX | XED_REG_AL
  | XED_REG_RSP | XED_REG_ESP | XED_REG_SP | XED_REG_SPL
  | XED_REG_RBP | XED_REG_EBP
  | XED_REG_RIP | XED_REG_EIP | XED_REG_IP
  | XED_REG_CS | XED_REG_DS | XED_REG_ES | XED_REG_SS | XED_REG_FS | XED_REG_GS
  | XED_REG_MMX0 | XED_REG_XMM0 | XED_REG_YMM0 | XED_REG_ZMM0

text \<open>The register tables of the XED library, on the registers listed above.\<close>

fun xed_reg_enum_t2str :: "xed_reg_enum_t \<Rightarrow> string" where
  "xed_reg_enum_t2str XED_REG_INVALID = ''INVALID''"
| "xed_reg_enum_t2str XED_REG_RAX = ''RAX''"
| "xed_reg_enum_t2str XED_REG_EAX = ''EAX''"
| "xed_reg_enum_t2str XED_REG_AX = ''AX''"
| "xed_reg_enum_t2str XED_REG_AL = ''AL''"
| "xed_reg_enum_t2str XED_REG_RSP = ''RSP''"
| "xed_reg_enum_t2str XED_REG_ESP = ''ESP''"
| "xed_reg_enum_t2str XED_REG_SP = ''SP''"
| "xed_reg_enum_t2str XED_REG_SPL = ''SPL''"
| "xed_reg_enum_t2str XED_REG_RBP = ''RBP''"
| "xed_reg_enum_t2str XED_REG_EBP = ''EBP''"
| "xed_reg_enum_t2str XED_REG_RIP = ''RIP''"
| "xed_reg_enum_t2str XED_REG_EIP = ''EIP''"
| "xed_reg_enum_t2str XED_REG_IP = ''IP''"
| "xed_reg_enum_t2str XED_REG_CS = ''CS''"
| "xed_reg_enum_t2str XED_REG_DS = ''DS''"
| "xed_reg_enum_t2str XED_REG_ES = ''ES''"
| "xed_reg_enum_t2str XED_REG_SS = ''SS''"
| "xed_reg_enum_t2str XED_REG_FS = ''FS''"
| "xed_reg_enum_t2str XED_REG_GS = ''GS''"
| "xed_reg_enum_t2str XED_REG_MMX0 = ''MMX0''"
| "xed_reg_enum_t2str XED_REG_XMM0 = ''XMM0''"
| "xed_reg_enum_t2str XED_REG_YMM0 = ''YMM0''"
| "xed_reg_enum_t2str XED_REG_ZMM0 = ''ZMM0''"

fun xed_get_register_width_bits64 :: "xed_reg_enum_t \<Rightarrow> nat" where
  "xed_get_register_width_bits64 XED_REG_INVALID = 0"
| "xed_get_register_width_bits64 XED_REG_RAX = 64"
| "xed_get_register_width_bits64 XED_REG_EAX = 32"
| "xed_get_register_width_bits64 XED_REG_AX = 16"
| "xed_get_register_width_bits64 XED_REG_AL = 8"
| "xed_get_register_width_bits64 XED_REG_RSP = 64"
| "xed_get_register_width_bits64 XED_REG_ESP = 32"
| "xed_get_register_width_bits64 XED_REG_SP = 16"
| "xed_get_register_width_bits64 XED_REG_SPL = 8"
| "xed_get_register_width_bits64 XED_REG_RBP = 64"
| "xed_get_register_width_bits64 XED_REG_EBP = 32"
| "xed_get_register_width_bits64 XED_REG_RIP = 64"
| "xed_get_register_width_bits64 XED_REG_EIP = 32"
| "xed_get_register_width_bits64 XED_REG_IP = 16"
| "xed_get_register_width_bits64 XED_REG_MMX0 = 64"
| "xed_get_register_width_bits64 XED_REG_XMM0 = 128"
| "xed_get_register_width_bits64 XED_REG_YMM0 = 256"
| "xed_get_register_width_bits64 XED_REG_ZMM0 = 512"
| "xed_get_register_width_bits64 _ = 16"

fun xed_get_largest_enclosing_register :: "xed_reg_enum_t \<Rightarrow> xed_reg_enum_t" where
  "xed_get_largest_enclosing_register XED_REG_EAX = XED_REG_RAX"
| "xed_get_largest_enclosing_register XED_REG_AX = XED_REG_RAX"
| "xed_get_largest_enclosing_register XED_REG_AL = XED_REG_RAX"
| "xed_get_largest_enclosing_register XED_REG_ESP = XED_REG_RSP"
| "xed_get_largest_enclosing_register XED_REG_SP = XED_REG_RSP"
| "xed_get_largest_enclosing_register XED_REG_SPL = XED_REG_RSP"
| "xed_get_largest_enclosing_register XED_REG_EBP = XED_REG_RBP"
| "xed_get_largest_enclosing_register XED_REG_EIP = XED_REG_RIP"
| "xed_get_largest_enclosing_register XED_REG_IP = XED_REG_RIP"
| "xed_get_largest_enclosing_register XED_REG_XMM0 = XED_REG_ZMM0"
| "xed_get_largest_enclosing_register XED_REG_YMM0 = XED_REG_ZMM0"
| "xed_get_largest_enclosing_register r = r"

text \<open>One entry of the operand table of an instruction (\<open>xed_operand_t\<close>).\<close>

record xed_operand_t =
  xed_operand_name :: xed_operand_enum_t
  xed_operand_operand_visibility :: xed_operand_visibility_enum_t
  xed_operand_read :: bool
  xed_operand_written :: bool

text \<open>
  A decoded instruction: one field for each accessor the lifter calls on \<open>xedd\<close>, on
  \<open>xedi\<close> and on the control-flow graph's \<open>instr\<close>, holding what the accessor returns.
  \<open>xed_inst_operand\<close> indexes the decoder's operand table without a bounds check, so it is
  a total function of the index; only \<open>xed_decoded_inst_noperands\<close> entries belong to the
  instruction. Fixed-width values are words of the width of the accessor's result type;
  addresses and pointer-sized integers have 64 bits.
\<close>

record Instr =
  instr_address :: "64 word"
  instr_size :: "64 word"
  iclass :: xed_iclass_enum_t
  xed_decoded_inst_noperands :: nat
  xed_inst_operand :: "nat \<Rightarrow> xed_operand_t"
  xed_iform :: string
  xed_decoded_inst_get_operand_width :: nat
  xed_decoded_inst_get_machine_mode_bits :: nat
  xed_operand_values_get_effective_address_width :: nat
  xed_decoded_inst_get_seg_reg :: "nat \<Rightarrow> xed_reg_enum_t"
  xed_decoded_inst_get_base_reg :: "nat \<Rightarrow> xed_reg_enum_t"
  xed_decoded_inst_get_index_reg :: "nat \<Rightarrow> xed_reg_enum_t"
  xed_decoded_inst_get_memory_displacement :: "nat \<Rightarrow> 64 word"
  xed_decoded_inst_get_scale :: "nat \<Rightarrow> nat"
  xed_decoded_inst_get_immediate_width_bits :: nat
  xed_operand_values_get_immediate_is_signed :: bool
  xed_decoded_inst_get_signed_immediate :: "32 word"
  xed_decoded_inst_get_unsigned_immediate :: "64 word"
  xed_decoded_inst_get_second_immediate :: "8 word"
  xed_decoded_inst_get_branch_displacement :: "32 word"
  xed_decoded_inst_get_reg :: "xed_operand_enum_t \<Rightarrow> xed_reg_enum_t"

subsection \<open>Fatal errors\<close>

text \<open>
  \<open>LOG(FATAL)\<close> and a failed \<open>CHECK\<close> end the process; a call through a null function
  pointer does too. Each is a value of \<open>fatal\<close>, and a function that can reach one returns
  \<open>fatal + result\<close>. Values streamed into a message after its fixed text are left out.
\<close>

datatype fatal = LOG_FATAL string | CHECK_failed string | NullCallee

subsection \<open>The instruction classifier\<close>

definition IsFunctionCall :: "Instr \<Rightarrow> bool" where
  "IsFunctionCall I \<longleftrightarrow> iclass I = XED_ICLASS_CALL_NEAR \<or> iclass I = XED_ICLASS_CALL_FAR"

definition IsFunctionReturn :: "Instr \<Rightarrow> bool" where
  "IsFunctionReturn I \<longleftrightarrow> iclass I = XED_ICLASS_RET_NEAR \<or> iclass I = XED_ICLASS_RET_FAR"

definition IsSystemCall :: "Instr \<Rightarrow> bool" where
  "IsSystemCall I \<longleftrightarrow>
     iclass I = XED_ICLASS_SYSCALL \<or> iclass I = XED_ICLASS_SYSCALL_AMD \<or>
     iclass I = XED_ICLASS_SYSENTER"

definition IsSystemReturn :: "Instr \<Rightarrow> bool" where
  "IsSystemReturn I \<longleftrightarrow>
     iclass I = XED_ICLASS_SYSRET \<or> iclass I = XED_ICLASS_SYSRET_AMD \<or>
     iclass I = XED_ICLASS_SYSEXIT"

definition IsInterruptCall :: "Instr \<Rightarrow> bool" where
  "IsInterruptCall I \<longleftrightarrow>
     iclass_enum XED_ICLASS_INT \<le> iclass_enum (iclass I) \<and>
     iclass_enum XED_ICLASS_INTO \<ge> iclass_enum (iclass I)"

definition IsInterruptReturn :: "Instr \<Rightarrow> bool" where
  "IsInterruptReturn I \<longleftrightarrow>
     iclass_enum XED_ICLASS_IRET \<le> iclass_enum (iclass I) \<and>
     iclass_enum XED_ICLASS_IRETQ \<ge> iclass_enum (iclass I)"

definition IsBranch :: "Instr \<Rightarrow> bool" where
  "IsBranch I \<longleftrightarrow>
     (iclass_enum XED_ICLASS_JB \<le> iclass_enum (iclass I) \<and>
      iclass_enum XED_ICLASS_JLE \<ge> iclass_enum (iclass I)) \<or>
     (iclass_enum XED_ICLASS_JNB \<le> iclass_enum (iclass I) \<and>
      iclass_enum XED_ICLASS_JZ \<ge> iclass_enum (iclass I)) \<or>
     (iclass_enum XED_ICLASS_LOOP \<le> iclass_enum (iclass I) \<and>
      iclass_enum XED_ICLASS_LOOPNE \<ge> iclass_enum (iclass I)) \<or>
     iclass I = XED_ICLASS_XBEGIN"

definition IsJump :: "Instr \<Rightarrow> bool" where
  "IsJump I \<longleftrightarrow>
     iclass I = XED_ICLASS_JMP \<or> iclass I = XED_ICLASS_JMP_FAR \<or>
     iclass I = XED_ICLASS_XEND \<or> iclass I = XED_ICLASS_XABORT"

definition IsDirectFunctionCall :: "Instr \<Rightarrow> bool" where
  "IsDirectFunctionCall I \<longleftrightarrow>
     (let xedo = xed_inst_operand I 0; op_name = xed_operand_name xedo
      in iclass I = XED_ICLASS_CALL_NEAR \<and> op_name = XED_OPERAND_RELBR)"

definition IsIndirectFunctionCall :: "Instr \<Rightarrow> bool" where
  "IsIndirectFunctionCall I \<longleftrightarrow>
     (let xedo = xed_inst_operand I 0; op_name = xed_operand_name xedo
      in (iclass I = XED_ICLASS_CALL_NEAR \<and> op_name \<noteq> XED_OPERAND_RELBR) \<or>
         iclass I = XED_ICLASS_CALL_FAR)"

definition IsDirectJump :: "Instr \<Rightarrow> bool" where
  "IsDirectJump I \<longleftrightarrow>
     (let xedo = xed_inst_operand I 0; op_name = xed_operand_name xedo
      in iclass I = XED_ICLASS_JMP \<and> op_name = XED_OPERAND_RELBR)"

definition IsIndirectJump :: "Instr \<Rightarrow> bool" where
  "IsIndirectJump I \<longleftrightarrow>
     (let xedo = xed_inst_operand I 0; op_name = xed_operand_name xedo
      in (iclass I = XED_ICLASS_JMP \<and> op_name \<noteq> XED_OPERAND_RELBR) \<or>
         iclass I = XED_ICLASS_JMP_FAR \<or>
         iclass I = XED_ICLASS_XEND \<or> iclass I = XED_ICLASS_XABORT)"

definition IsError :: "Instr \<Rightarrow> bool" where
  "IsError I \<longleftrightarrow> iclass I = XED_ICLASS_HLT"

definition NextPC :: "Instr \<Rightarrow> 64 word" where
  "NextPC I = instr_address I + instr_size I"

text \<open>
  \<open>TargetPC\<close>: the displacement is a signed 32-bit value, widened with its sign to the
  pointer-sized \<open>next_pc\<close>; the sum is converted to \<open>uintptr_t\<close>, so it wraps at 64 bits.
\<close>

definition TargetPC :: "Instr \<Rightarrow> fatal + 64 word" where
  "TargetPC I =
     (if \<not> (IsDirectJump I \<or> IsDirectFunctionCall I \<or> IsBranch I)
      then Inl (CHECK_failed
        ''Can only get target PC of a direct jump, branch, or function call.'')
      else
        (let disp = xed_decoded_inst_get_branch_displacement I;
             next_pc = NextPC I
         in Inr (next_pc + scast disp)))"


subsection \<open>The intermediate representation being built\<close>

text \<open>
  A handle to a function of the module: a runtime helper, a lifted block, or an
  instruction's semantics function.
\<close>

datatype llvm_Function = Function string

text \<open>
  Values of the intermediate representation. An instruction is identified with the call
  of the builder that creates it, applied to its operands, so a value is a term:
  \<^item> \<open>Argument n\<close> is the \<open>n\<close>-th argument of the routine \<open>F\<close> (\<open>&*F->arg_begin()\<close> is
    \<open>Argument 0\<close>); \<open>StatePointer\<close> is \<open>FindStatePointer(F)\<close> and \<open>VarInFunction name\<close> is
    \<open>FindVarInFunction(F, name)\<close>;
  \<^item> \<open>ConstantInt w v s\<close> is \<open>llvm::ConstantInt::get(getIntNTy(w), v, s)\<close>;
  \<^item> \<open>AlignedLoad a p\<close> is a load whose alignment has been set to \<open>a\<close>;
  \<^item> \<open>AllocaTypeOf v\<close> is a stack slot of the type of \<open>v\<close>;
  \<^item> \<open>CondBr c t f\<close> branches to the blocks numbered \<open>t\<close> and \<open>f\<close> among the blocks added to
    \<open>F\<close>;
  \<^item> \<open>TerminatingTailCall f\<close> is what \<open>AddTerminatingTailCall\<close> leaves at the end of a block.
\<close>

text \<open>
  Modelled from the spec: \<open>FindVarInFunction\<close> and \<open>FindStatePointer\<close> are declared in
  mcsema/BC/Util.h and their bodies are not among the sources. By the specification they
  are named lookups in the current routine, of the read or write slot of a register by
  the register's name with the suffix \<open>_read\<close> or \<open>_write\<close>, and of the machine state. A
  lookup is recorded as a value, by the name looked up; what a lookup does when the
  routine has no variable of that name is left open.
\<close>

datatype llvm_Value =
    Argument nat
  | StatePointer
  | VarInFunction string
  | ConstantInt nat "64 word" bool
  | Load llvm_Value
  | AlignedLoad nat llvm_Value
  | Store llvm_Value llvm_Value
  | ZExt llvm_Value nat
  | SExt llvm_Value nat
  | Add llvm_Value llvm_Value
  | Mul llvm_Value llvm_Value
  | ICmpEQ llvm_Value llvm_Value
  | AllocaTypeOf llvm_Value
  | Call llvm_Function "llvm_Value list"
  | CondBr llvm_Value nat nat
  | TerminatingTailCall llvm_Function

record llvm_BasicBlock =
  block_name :: string
  block_insts :: "llvm_Value list"

text \<open>
  A global variable of the module, as far as \<open>LiftGeneric\<close> looks at it:
  \<open>initializer_function\<close> is \<open>dyn_cast<Function>(getInitializer()->stripPointerCasts())\<close>,
  \<open>None\<close> when the cast gives a null pointer.
\<close>

record llvm_GlobalVariable =
  isConstant :: bool
  hasInitializer :: bool
  initializer_function :: "llvm_Function option"

record llvm_Module =
  getFunction :: "string \<Rightarrow> llvm_Function option"
  getGlobalVariable :: "string \<Rightarrow> llvm_GlobalVariable option"

text \<open>
  The lifter's table of runtime helpers and its resolver of successor blocks
  (mcsema/BC/Lifter.h).
\<close>

record Lifter =
  error :: llvm_Function
  jump :: llvm_Function
  function_call :: llvm_Function
  function_return :: llvm_Function
  system_call :: llvm_Function
  system_return :: llvm_Function
  interrupt_call :: llvm_Function
  interrupt_return :: llvm_Function
  compute_address :: llvm_Function
  GetLiftedBlockForPC :: "64 word \<Rightarrow> llvm_Function"

datatype log_severity = WARNING | ERROR

text \<open>
  What one lift can change: the instruction list of the block \<open>B\<close>, the blocks added to
  the routine \<open>F\<close>, the argument list \<open>args\<close>, the list \<open>append_instrs\<close>, and the log.
  The module \<open>M\<close> that \<open>B\<close> belongs to is carried along and never changed.
\<close>

record lift_state =
  insts_B :: "llvm_Value list"
  blocks_F :: "llvm_BasicBlock list"
  module_M :: llvm_Module
  args :: "llvm_Value list"
  append_instrs :: "llvm_Value list"
  glog :: "(log_severity \<times> string) list"

text \<open>An \<open>IRBuilder\<close> on \<open>B\<close> appends the instruction it creates and returns it.\<close>

definition ir_Create :: "llvm_Value \<Rightarrow> lift_state \<Rightarrow> llvm_Value \<times> lift_state" where
  "ir_Create v st = (v, st\<lparr>insts_B := insts_B st @ [v]\<rparr>)"

definition args_push_back :: "llvm_Value \<Rightarrow> lift_state \<Rightarrow> lift_state" where
  "args_push_back v st = st\<lparr>args := args st @ [v]\<rparr>"

definition LOG :: "log_severity \<Rightarrow> string \<Rightarrow> lift_state \<Rightarrow> lift_state" where
  "LOG sev msg st = st\<lparr>glog := glog st @ [(sev, msg)]\<rparr>"

text \<open>
  Modelled from the spec: \<open>AddTerminatingTailCall\<close> is declared in mcsema/BC/Util.h and its
  body is not among the sources. By the specification it ends the block with an
  unconditional tail invocation of the given function on the machine state, after which
  control does not come back to the block.
\<close>

definition AddTerminatingTailCall :: "llvm_Value list \<Rightarrow> llvm_Function \<Rightarrow> llvm_Value list" where
  "AddTerminatingTailCall insts func = insts @ [TerminatingTailCall func]"

fun is_terminator :: "llvm_Value \<Rightarrow> bool" where
  "is_terminator (TerminatingTailCall f) = True"
| "is_terminator (CondBr c t f) = True"
| "is_terminator _ = False"

subsection \<open>Names\<close>

text \<open>Decimal output of an unsigned number, as \<open>operator<<\<close> writes it.\<close>

function decimal :: "nat \<Rightarrow> string" where
  "decimal n =
     (if n < 10 then [''0123456789'' ! n]
      else decimal (n div 10) @ [''0123456789'' ! (n mod 10)])"
  by pat_completeness auto
termination
  by (relation "measure id") auto

declare decimal.simps [simp del]

text \<open>\<open>FLAGS_os\<close> is a global flag of the process; here it is a parameter.\<close>

definition InstructionFunctionName :: "string \<Rightarrow> Instr \<Rightarrow> string" where
  "InstructionFunctionName FLAGS_os I =
     (if FLAGS_os = ''mac'' then ''_'' else []) @ xed_iform I @ ''_'' @
     decimal (xed_decoded_inst_get_operand_width I)"

definition AddressSpace :: "xed_reg_enum_t \<Rightarrow> xed_operand_enum_t \<Rightarrow> nat" where
  "AddressSpace seg name =
     (if name = XED_OPERAND_AGEN then 0
      else if seg = XED_REG_GS then 256
      else if seg = XED_REG_FS then 257
      else 0)"

text \<open>
  \<open>PCRegName\<close> writes to the log in its default case, so it takes and returns the state.
  It has the result type of the functions that can end the process, so that whether it
  ends the process is a property of its result.
\<close>

definition PCRegName :: "Instr \<Rightarrow> lift_state \<Rightarrow> fatal + (string \<times> lift_state)" where
  "PCRegName I st =
     (let w = xed_operand_values_get_effective_address_width I
      in if w = 64 then Inr (''RIP'', st)
         else if w = 32 then Inr (''EIP'', st)
         else if w = 16 then Inr (''IP'', st)
         else Inr ([], LOG ERROR ''Unexpected address width.'' st))"

subsection \<open>Lifting the operands\<close>

text \<open>
  \<open>LiftPC\<close>: the load of the write slot is created first, as an argument of the store.
\<close>

definition LiftPC :: "Instr \<Rightarrow> lift_state \<Rightarrow> fatal + lift_state" where
  "LiftPC I st =
     (let addr_width = xed_decoded_inst_get_machine_mode_bits I
      in case PCRegName I st of
           Inl e \<Rightarrow> Inl e
         | Inr (name, st1) \<Rightarrow>
             (let (slot, st2) = ir_Create (Load (VarInFunction (name @ ''_write''))) st1;
                  (store, st3) =
                     ir_Create (Store (ConstantInt addr_width (NextPC I) False) slot) st2
              in Inr st3))"

text \<open>The lambda \<open>RegToValue\<close> of \<open>LiftMemory\<close>.\<close>

definition RegToValue :: "nat \<Rightarrow> xed_reg_enum_t \<Rightarrow> lift_state \<Rightarrow> llvm_Value \<times> lift_state" where
  "RegToValue addr_width reg st =
     (if reg = XED_REG_INVALID then (ConstantInt addr_width 0 False, st)
      else
        (let var_name = xed_reg_enum_t2str reg @ ''_read'';
             (slot, st1) = ir_Create (Load (VarInFunction var_name)) st;
             (V, st2) = ir_Create (Load slot) st1
         in if xed_get_register_width_bits64 reg < addr_width
            then ir_Create (ZExt V addr_width) st2
            else (V, st2)))"

text \<open>
  The third form of address in \<open>LiftMemory\<close>, \<open>B + (I * S) + D\<close>. It returns the base
  value \<open>B\<close> that enters the sum, after the adjustment for \<open>POP\<close>, beside the sum itself.
\<close>

definition LiftMemory_sum ::
  "Instr \<Rightarrow> nat \<Rightarrow> lift_state \<Rightarrow> (llvm_Value \<times> llvm_Value) \<times> lift_state" where
  "LiftMemory_sum I mem_index st =
     (let base = xed_decoded_inst_get_base_reg I mem_index;
          index = xed_decoded_inst_get_index_reg I mem_index;
          disp = xed_decoded_inst_get_memory_displacement I mem_index;
          scale = xed_decoded_inst_get_scale I mem_index;
          addr_width = xed_decoded_inst_get_machine_mode_bits I;
          (B, st1) = RegToValue addr_width base st;
          (Ix, st2) = RegToValue addr_width index st1;
          (B', st3) =
             (if iclass I = XED_ICLASS_POP \<and>
                 xed_get_largest_enclosing_register base = XED_REG_RSP
              then ir_Create
                     (Add B (ConstantInt addr_width (of_nat (addr_width div 8)) False)) st2
              else (B, st2));
          S = ConstantInt addr_width (of_nat scale) True;
          D = ConstantInt 32 disp True;
          (D', st4) =
             (if 32 < addr_width then ir_Create (SExt D addr_width) st3 else (D, st3));
          (IS, st5) = ir_Create (Mul Ix S) st4;
          (BIS, st6) = ir_Create (Add B' IS) st5;
          (A, st7) = ir_Create (Add BIS D') st6
      in ((B', A), st7))"

text \<open>
  The address \<open>A\<close> of \<open>LiftMemory\<close>, before any segment is applied: the displacement
  alone, the next program counter plus the displacement, or the sum above.
\<close>

definition LiftMemory_A :: "Instr \<Rightarrow> nat \<Rightarrow> lift_state \<Rightarrow> llvm_Value \<times> lift_state" where
  "LiftMemory_A I mem_index st =
     (let base = xed_decoded_inst_get_base_reg I mem_index;
          index = xed_decoded_inst_get_index_reg I mem_index;
          disp = xed_decoded_inst_get_memory_displacement I mem_index;
          addr_width = xed_decoded_inst_get_machine_mode_bits I
      in if base = XED_REG_INVALID \<and> index = XED_REG_INVALID
         then (ConstantInt addr_width disp False, st)
         else if base = XED_REG_RIP
         then (let next_pc = NextPC I in (ConstantInt addr_width (next_pc + disp) False, st))
         else (let ((B', A), st1) = LiftMemory_sum I mem_index st in (A, st1)))"

definition LiftMemory ::
  "Lifter \<Rightarrow> Instr \<Rightarrow> xed_operand_t \<Rightarrow> nat \<Rightarrow> lift_state \<Rightarrow> lift_state" where
  "LiftMemory lifter I xedo op_num st =
     (let op_name = xed_operand_name xedo;
          mem_index = (if op_name = XED_OPERAND_MEM1 then 1 else 0);
          seg = xed_decoded_inst_get_seg_reg I mem_index;
          addr_space = AddressSpace seg op_name;
          (A, st1) = LiftMemory_A I mem_index st;
          (A', st2) =
             (if addr_space \<noteq> 0
              then ir_Create
                     (Call (compute_address lifter)
                        [StatePointer, A, ConstantInt 32 (of_nat addr_space) True]) st1
              else (A, st1));
          st3 = (if xed_operand_written xedo then args_push_back A' st2 else st2);
          st4 = (if xed_operand_read xedo then args_push_back A' st3 else st3)
      in st4)"

definition LiftImmediate ::
  "Instr \<Rightarrow> xed_operand_enum_t \<Rightarrow> lift_state \<Rightarrow> fatal + lift_state" where
  "LiftImmediate I op_name st =
     (let op_size = xed_decoded_inst_get_operand_width I;
          imm_size = xed_decoded_inst_get_immediate_width_bits I
      in if \<not> imm_size \<le> op_size
         then Inl (CHECK_failed
           ''Immediate size is greater than effective operand size at PC '')
         else if op_name = XED_OPERAND_IMM0SIGNED \<or>
                 xed_operand_values_get_immediate_is_signed I
         then Inr (args_push_back
                (ConstantInt op_size (scast (xed_decoded_inst_get_signed_immediate I)) True) st)
         else if op_name = XED_OPERAND_IMM0
         then Inr (args_push_back
                (ConstantInt op_size (xed_decoded_inst_get_unsigned_immediate I) False) st)
         else if op_name = XED_OPERAND_IMM1_BYTES \<or> op_name = XED_OPERAND_IMM1
         then Inr (args_push_back
                (ConstantInt op_size (ucast (xed_decoded_inst_get_second_immediate I)) False) st)
         else Inl (LOG_FATAL ''Unexpected immediate type ''))"

text \<open>
  The four range tests of \<open>IsVectorReg\<close> run from the first to the last register of the
  MMX, XMM, YMM and ZMM families of the XED enumeration.
\<close>

definition IsVectorReg :: "xed_reg_enum_t \<Rightarrow> bool" where
  "IsVectorReg reg \<longleftrightarrow>
     reg = XED_REG_MMX0 \<or> reg = XED_REG_XMM0 \<or> reg = XED_REG_YMM0 \<or> reg = XED_REG_ZMM0"

definition kVectorRegAlign :: nat where
  "kVectorRegAlign = 64"

definition LiftRegister :: "Instr \<Rightarrow> xed_operand_t \<Rightarrow> lift_state \<Rightarrow> lift_state" where
  "LiftRegister I xedo st =
     (let op_name = xed_operand_name xedo;
          reg = xed_decoded_inst_get_reg I op_name;
          reg_name = xed_reg_enum_t2str reg;
          st1 =
            (if xed_operand_written xedo
             then (let (RegAddr, s) = ir_Create (Load (VarInFunction (reg_name @ ''_write''))) st
                   in args_push_back RegAddr s)
             else st)
      in if xed_operand_read xedo
         then
           (let (RegAddr, s1) = ir_Create (Load (VarInFunction (reg_name @ ''_read''))) st1;
                (Reg, s2) = ir_Create (AlignedLoad kVectorRegAlign RegAddr) s1
            in if IsVectorReg reg
               then (let (ValAddr, s3) = ir_Create (AllocaTypeOf Reg) s2;
                         (store, s4) = ir_Create (Store Reg ValAddr) s3
                     in args_push_back ValAddr s4)
               else args_push_back Reg s2)
         else st1)"

definition LiftBranchDisplacement :: "Instr \<Rightarrow> lift_state \<Rightarrow> fatal + lift_state" where
  "LiftBranchDisplacement I st =
     (let addr_width = xed_decoded_inst_get_machine_mode_bits I
      in case TargetPC I of
           Inl e \<Rightarrow> Inl e
         | Inr target \<Rightarrow> Inr (args_push_back (ConstantInt addr_width target True) st))"

definition LiftOperand :: "Lifter \<Rightarrow> Instr \<Rightarrow> nat \<Rightarrow> lift_state \<Rightarrow> fatal + lift_state" where
  "LiftOperand lifter I op_num st =
     (let xedo = xed_inst_operand I op_num
      in if xed_operand_operand_visibility xedo \<noteq> XED_OPVIS_SUPPRESSED
         then
           (let op_name = xed_operand_name xedo
            in case op_name of
                 XED_OPERAND_AGEN \<Rightarrow> Inr (LiftMemory lifter I xedo op_num st)
               | XED_OPERAND_MEM0 \<Rightarrow> Inr (LiftMemory lifter I xedo op_num st)
               | XED_OPERAND_IMM0SIGNED \<Rightarrow> LiftImmediate I op_name st
               | XED_OPERAND_IMM0 \<Rightarrow> LiftImmediate I op_name st
               | XED_OPERAND_IMM1_BYTES \<Rightarrow> LiftImmediate I op_name st
               | XED_OPERAND_IMM1 \<Rightarrow> LiftImmediate I op_name st
               | XED_OPERAND_PTR \<Rightarrow> Inl (LOG_FATAL ''Unsupported operand type: XED_OPERAND_PTR'')
               | XED_OPERAND_REG0 \<Rightarrow> Inr (LiftRegister I xedo st)
               | XED_OPERAND_REG1 \<Rightarrow> Inr (LiftRegister I xedo st)
               | XED_OPERAND_REG2 \<Rightarrow> Inr (LiftRegister I xedo st)
               | XED_OPERAND_REG3 \<Rightarrow> Inr (LiftRegister I xedo st)
               | XED_OPERAND_RELBR \<Rightarrow> LiftBranchDisplacement I st
               | _ \<Rightarrow> Inl (LOG_FATAL ''Unexpected operand type: ''))
         else Inr st)"

text \<open>The loop of \<open>LiftGeneric\<close> over the operand numbers \<open>0, ..., num_operands - 1\<close>.\<close>

fun LiftOperands :: "Lifter \<Rightarrow> Instr \<Rightarrow> nat list \<Rightarrow> lift_state \<Rightarrow> fatal + lift_state" where
  "LiftOperands lifter I [] st = Inr st"
| "LiftOperands lifter I (i # is) st =
     (case LiftOperand lifter I i st of
        Inl e \<Rightarrow> Inl e
      | Inr st' \<Rightarrow> LiftOperands lifter I is st')"

definition LiftGeneric :: "string \<Rightarrow> Lifter \<Rightarrow> Instr \<Rightarrow> lift_state \<Rightarrow> fatal + lift_state" where
  "LiftGeneric FLAGS_os lifter I st =
     (let st0 = args_push_back (Argument 0) st;
          num_operands = xed_decoded_inst_noperands I
      in case LiftOperands lifter I [0..<num_operands] st0 of
           Inl e \<Rightarrow> Inl e
         | Inr st1 \<Rightarrow>
             (let func_name = InstructionFunctionName FLAGS_os I;
                  called =
                    (case getFunction (module_M st1) func_name of
                       Some F' \<Rightarrow> Inr (snd (ir_Create (Call F' (args st1)) st1))
                     | None \<Rightarrow>
                         (case getGlobalVariable (module_M st1) func_name of
                            Some FP \<Rightarrow>
                              (if \<not> (isConstant FP \<and> hasInitializer FP)
                               then Inl (CHECK_failed
                                 ''Expected a `constexpr` variable as the function pointer.'')
                               else case initializer_function FP of
                                      None \<Rightarrow> Inl NullCallee
                                    | Some FC \<Rightarrow>
                                        Inr (snd (ir_Create (Call FC (args st1)) st1)))
                          | None \<Rightarrow>
                              Inr (LOG WARNING ''Missing instruction semantics for '' st1)))
              in case called of
                   Inl e \<Rightarrow> Inl e
                 | Inr st2 \<Rightarrow> Inr (st2\<lparr>insts_B := insts_B st2 @ append_instrs st2\<rparr>)))"

subsection \<open>Threading the control flow\<close>

text \<open>
  \<open>llvm::BasicBlock::Create(*C, name, F)\<close> puts a new, empty block at the end of \<open>F\<close>; the
  block is referred to by its number among the blocks added to \<open>F\<close>.
\<close>

definition BasicBlock_Create :: "string \<Rightarrow> lift_state \<Rightarrow> nat \<times> lift_state" where
  "BasicBlock_Create name st =
     (length (blocks_F st),
      st\<lparr>blocks_F := blocks_F st @ [\<lparr>block_name = name, block_insts = []\<rparr>]\<rparr>)"

text \<open>\<open>AddTerminatingTailCall\<close> applied to the block \<open>B\<close>, and to a block added to \<open>F\<close>.\<close>

definition AddTerminatingTailCall_B :: "llvm_Function \<Rightarrow> lift_state \<Rightarrow> lift_state" where
  "AddTerminatingTailCall_B func st =
     st\<lparr>insts_B := AddTerminatingTailCall (insts_B st) func\<rparr>"

definition AddTerminatingTailCall_F :: "nat \<Rightarrow> llvm_Function \<Rightarrow> lift_state \<Rightarrow> lift_state" where
  "AddTerminatingTailCall_F k func st =
     st\<lparr>blocks_F := (blocks_F st)
          [k := (blocks_F st ! k)
             \<lparr>block_insts := AddTerminatingTailCall (block_insts (blocks_F st ! k)) func\<rparr>]\<rparr>"

definition LiftConditionalBranch :: "Lifter \<Rightarrow> Instr \<Rightarrow> lift_state \<Rightarrow> fatal + lift_state" where
  "LiftConditionalBranch lifter I st =
     (let addr_width = xed_decoded_inst_get_machine_mode_bits I
      in case TargetPC I of
           Inl e \<Rightarrow> Inl e
         | Inr target_pc \<Rightarrow>
            (case PCRegName I st of
               Inl e \<Rightarrow> Inl e
             | Inr (name, st1) \<Rightarrow>
                (let (slot, st2) = ir_Create (Load (VarInFunction (name @ ''_read''))) st1;
                     (DestPC, st3) = ir_Create (Load slot) st2;
                     BranchPC = ConstantInt addr_width target_pc False;
                     (Taken, st4) = BasicBlock_Create ''branch_taken'' st3;
                     (FallThrough, st5) = BasicBlock_Create ''fall_through'' st4;
                     st6 = AddTerminatingTailCall_F Taken
                             (GetLiftedBlockForPC lifter target_pc) st5;
                     st7 = AddTerminatingTailCall_F FallThrough
                             (GetLiftedBlockForPC lifter (NextPC I)) st6;
                     (cmp, st8) = ir_Create (ICmpEQ BranchPC DestPC) st7;
                     (br, st9) = ir_Create (CondBr cmp Taken FallThrough) st8
                 in Inr st9)))"

text \<open>
  The three steps shared by most branches of \<open>LiftIntoBlock\<close>: \<open>LiftPC\<close>, \<open>LiftGeneric\<close>,
  and a terminating tail call of a helper, followed by an optional warning.
\<close>

definition LiftPC_Generic ::
  "string \<Rightarrow> Lifter \<Rightarrow> Instr \<Rightarrow> lift_state \<Rightarrow> fatal + lift_state" where
  "LiftPC_Generic FLAGS_os lifter I st =
     (case LiftPC I st of
        Inl e \<Rightarrow> Inl e
      | Inr st1 \<Rightarrow> LiftGeneric FLAGS_os lifter I st1)"

definition LiftIntoBlock ::
  "string \<Rightarrow> Lifter \<Rightarrow> Instr \<Rightarrow> lift_state \<Rightarrow> fatal + (bool \<times> lift_state)" where
  "LiftIntoBlock FLAGS_os lifter I st =
     (if IsError I then
        Inr (False, AddTerminatingTailCall_B (error lifter) st)
      else if IsDirectJump I then
        (case TargetPC I of
           Inl e \<Rightarrow> Inl e
         | Inr target \<Rightarrow>
             Inr (False, AddTerminatingTailCall_B (GetLiftedBlockForPC lifter target) st))
      else if IsIndirectJump I then
        (case LiftPC_Generic FLAGS_os lifter I st of
           Inl e \<Rightarrow> Inl e
         | Inr st2 \<Rightarrow> Inr (False, AddTerminatingTailCall_B (jump lifter) st2))
      else if IsDirectFunctionCall I then
        (case LiftPC_Generic FLAGS_os lifter I st of
           Inl e \<Rightarrow> Inl e
         | Inr st2 \<Rightarrow>
             (case TargetPC I of
                Inl e \<Rightarrow> Inl e
              | Inr target \<Rightarrow>
                  Inr (False,
                       AddTerminatingTailCall_B (GetLiftedBlockForPC lifter target) st2)))
      else if IsIndirectFunctionCall I then
        (case LiftPC_Generic FLAGS_os lifter I st of
           Inl e \<Rightarrow> Inl e
         | Inr st2 \<Rightarrow> Inr (False, AddTerminatingTailCall_B (function_call lifter) st2))
      else if IsFunctionReturn I then
        (case LiftPC_Generic FLAGS_os lifter I st of
           Inl e \<Rightarrow> Inl e
         | Inr st2 \<Rightarrow> Inr (False, AddTerminatingTailCall_B (function_return lifter) st2))
      else if IsBranch I then
        (case LiftPC_Generic FLAGS_os lifter I st of
           Inl e \<Rightarrow> Inl e
         | Inr st2 \<Rightarrow>
             (case LiftConditionalBranch lifter I st2 of
                Inl e \<Rightarrow> Inl e
              | Inr st3 \<Rightarrow> Inr (False, st3)))
      else if IsSystemCall I then
        (case LiftPC_Generic FLAGS_os lifter I st of
           Inl e \<Rightarrow> Inl e
         | Inr st2 \<Rightarrow> Inr (False, AddTerminatingTailCall_B (system_call lifter) st2))
      else if IsSystemReturn I then
        (case LiftPC_Generic FLAGS_os lifter I st of
           Inl e \<Rightarrow> Inl e
         | Inr st2 \<Rightarrow>
             Inr (False,
                  LOG WARNING ''Unsupported instruction (system return) at PC ''
                    (AddTerminatingTailCall_B (system_return lifter) st2)))
      else if IsInterruptCall I then
        (case LiftPC_Generic FLAGS_os lifter I st of
           Inl e \<Rightarrow> Inl e
         | Inr st2 \<Rightarrow> Inr (False, AddTerminatingTailCall_B (interrupt_call lifter) st2))
      else if IsInterruptReturn I then
        (case LiftPC_Generic FLAGS_os lifter I st of
           Inl e \<Rightarrow> Inl e
         | Inr st2 \<Rightarrow>
             Inr (False,
                  LOG WARNING ''Unsupported instruction (system return) at PC ''
                    (AddTerminatingTailCall_B (interrupt_return lifter) st2)))
      else
        (case LiftGeneric FLAGS_os lifter I st of
           Inl e \<Rightarrow> Inl e
         | Inr st1 \<Rightarrow> Inr (True, st1)))"

subsection \<open>The specification's account of the operands\<close>

text \<open>
  The definitions of this subsection follow the words of the specification, not the code;
  the theorems compare them with the functions above.

  A base or index register "defaults to zero if absent and is zero-extended to address
  width if narrower"; its value is read through its read slot.
\<close>

definition spec_register_value :: "nat \<Rightarrow> xed_reg_enum_t \<Rightarrow> llvm_Value" where
  "spec_register_value w reg =
     (if reg = XED_REG_INVALID then ConstantInt w 0 False
      else if xed_get_register_width_bits64 reg < w
      then ZExt (Load (Load (VarInFunction (xed_reg_enum_t2str reg @ ''_read'')))) w
      else Load (Load (VarInFunction (xed_reg_enum_t2str reg @ ''_read''))))"

definition stack_pointer_family :: "xed_reg_enum_t set" where
  "stack_pointer_family = {XED_REG_RSP, XED_REG_ESP, XED_REG_SP, XED_REG_SPL}"

text \<open>
  The base value of the third addressing form: on a pop with a base of the stack-pointer
  family, the stack pointer "after it has been incremented by one address-width's worth
  of bytes".
\<close>

definition spec_base_value :: "Instr \<Rightarrow> nat \<Rightarrow> llvm_Value" where
  "spec_base_value I k =
     (let w = xed_decoded_inst_get_machine_mode_bits I;
          base = xed_decoded_inst_get_base_reg I k
      in if iclass I = XED_ICLASS_POP \<and> base \<in> stack_pointer_family
         then Add (spec_register_value w base) (ConstantInt w (of_nat (w div 8)) False)
         else spec_register_value w base)"

text \<open>
  The Address Calculator: the raw displacement; or the next program counter plus the
  displacement; or base value plus index value times scale plus the sign-extended
  displacement.
\<close>

definition spec_address :: "Instr \<Rightarrow> nat \<Rightarrow> llvm_Value" where
  "spec_address I k =
     (let w = xed_decoded_inst_get_machine_mode_bits I;
          base = xed_decoded_inst_get_base_reg I k;
          index = xed_decoded_inst_get_index_reg I k;
          disp = xed_decoded_inst_get_memory_displacement I k;
          scale = xed_decoded_inst_get_scale I k
      in if base = XED_REG_INVALID \<and> index = XED_REG_INVALID then ConstantInt w disp False
         else if base = XED_REG_RIP then ConstantInt w (NextPC I + disp) False
         else Add (Add (spec_base_value I k)
                       (Mul (spec_register_value w index) (ConstantInt w (of_nat scale) True)))
                  (if 32 < w then SExt (ConstantInt 32 disp True) w
                   else ConstantInt 32 disp True))"

text \<open>
  The final address of a memory operand: the computed address, passed through the
  segmented-address helper with the machine state and the tag when the tag is not 0.
\<close>

definition spec_final_address :: "Lifter \<Rightarrow> Instr \<Rightarrow> xed_operand_t \<Rightarrow> llvm_Value" where
  "spec_final_address lifter I xedo =
     (let k = (if xed_operand_name xedo = XED_OPERAND_MEM1 then 1 else 0);
          tag = AddressSpace (xed_decoded_inst_get_seg_reg I k) (xed_operand_name xedo)
      in if tag = 0 then spec_address I k
         else Call (compute_address lifter)
                [StatePointer, spec_address I k, ConstantInt 32 (of_nat tag) True])"

definition is_memory_operand :: "xed_operand_t \<Rightarrow> bool" where
  "is_memory_operand xedo \<longleftrightarrow>
     xed_operand_name xedo = XED_OPERAND_AGEN \<or> xed_operand_name xedo = XED_OPERAND_MEM0"

definition is_register_operand :: "xed_operand_t \<Rightarrow> bool" where
  "is_register_operand xedo \<longleftrightarrow>
     xed_operand_name xedo = XED_OPERAND_REG0 \<or> xed_operand_name xedo = XED_OPERAND_REG1 \<or>
     xed_operand_name xedo = XED_OPERAND_REG2 \<or> xed_operand_name xedo = XED_OPERAND_REG3"

definition is_immediate_operand :: "xed_operand_t \<Rightarrow> bool" where
  "is_immediate_operand xedo \<longleftrightarrow>
     xed_operand_name xedo = XED_OPERAND_IMM0SIGNED \<or>
     xed_operand_name xedo = XED_OPERAND_IMM0 \<or>
     xed_operand_name xedo = XED_OPERAND_IMM1_BYTES \<or>
     xed_operand_name xedo = XED_OPERAND_IMM1"

definition is_visible :: "xed_operand_t \<Rightarrow> bool" where
  "is_visible xedo \<longleftrightarrow> xed_operand_operand_visibility xedo \<noteq> XED_OPVIS_SUPPRESSED"

text \<open>A register's write handle and its read value (a copied local for a vector register).\<close>

definition spec_write_handle :: "xed_reg_enum_t \<Rightarrow> llvm_Value" where
  "spec_write_handle reg = Load (VarInFunction (xed_reg_enum_t2str reg @ ''_write''))"

definition spec_read_value :: "xed_reg_enum_t \<Rightarrow> llvm_Value" where
  "spec_read_value reg =
     (let Reg = AlignedLoad 64 (Load (VarInFunction (xed_reg_enum_t2str reg @ ''_read'')))
      in if IsVectorReg reg then AllocaTypeOf Reg else Reg)"

definition spec_immediate :: "Instr \<Rightarrow> xed_operand_enum_t \<Rightarrow> llvm_Value" where
  "spec_immediate I name =
     (let w = xed_decoded_inst_get_operand_width I
      in if name = XED_OPERAND_IMM0SIGNED \<or> xed_operand_values_get_immediate_is_signed I
         then ConstantInt w (scast (xed_decoded_inst_get_signed_immediate I)) True
         else if name = XED_OPERAND_IMM0
         then ConstantInt w (xed_decoded_inst_get_unsigned_immediate I) False
         else ConstantInt w (ucast (xed_decoded_inst_get_second_immediate I)) False)"

text \<open>
  What one visible operand contributes to the argument list: for a memory operand its
  address once per role, write before read; for a register its write handle, then its
  read value; for an immediate its constant; for a relative branch the target address.
\<close>

definition spec_operand_args :: "Lifter \<Rightarrow> Instr \<Rightarrow> xed_operand_t \<Rightarrow> llvm_Value list" where
  "spec_operand_args lifter I xedo =
     (if is_memory_operand xedo
      then (if xed_operand_written xedo then [spec_final_address lifter I xedo] else []) @
           (if xed_operand_read xedo then [spec_final_address lifter I xedo] else [])
      else if is_register_operand xedo
      then (if xed_operand_written xedo
            then [spec_write_handle (xed_decoded_inst_get_reg I (xed_operand_name xedo))]
            else []) @
           (if xed_operand_read xedo
            then [spec_read_value (xed_decoded_inst_get_reg I (xed_operand_name xedo))]
            else [])
      else if is_immediate_operand xedo
      then [spec_immediate I (xed_operand_name xedo)]
      else if xed_operand_name xedo = XED_OPERAND_RELBR
      then [ConstantInt (xed_decoded_inst_get_machine_mode_bits I)
              (NextPC I + scast (xed_decoded_inst_get_branch_displacement I)) True]
      else [])"

definition visible_operands :: "Instr \<Rightarrow> xed_operand_t list" where
  "visible_operands I =
     filter is_visible (map (xed_inst_operand I) [0..<xed_decoded_inst_noperands I])"

text \<open>
  The instruction matches none of the classification predicates of the control flow.
\<close>

definition matches_no_predicate :: "Instr \<Rightarrow> bool" where
  "matches_no_predicate I \<longleftrightarrow>
     \<not> IsError I \<and> \<not> IsDirectJump I \<and> \<not> IsIndirectJump I \<and> \<not> IsDirectFunctionCall I \<and>
     \<not> IsIndirectFunctionCall I \<and> \<not> IsFunctionReturn I \<and> \<not> IsBranch I \<and>
     \<not> IsSystemCall I \<and> \<not> IsSystemReturn I \<and> \<not> IsInterruptCall I \<and>
     \<not> IsInterruptReturn I \<and> \<not> IsJump I \<and> \<not> IsFunctionCall I"

text \<open>
  The categories in which \<open>LiftIntoBlock\<close> runs \<open>LiftPC\<close> and \<open>LiftGeneric\<close> before it
  ends the block: every category of control transfer but error and direct jump.
\<close>

definition lifts_pc_first :: "Instr \<Rightarrow> bool" where
  "lifts_pc_first I \<longleftrightarrow>
     \<not> IsError I \<and> \<not> IsDirectJump I \<and>
     (IsIndirectJump I \<or> IsDirectFunctionCall I \<or> IsIndirectFunctionCall I \<or>
      IsFunctionReturn I \<or> IsBranch I \<or> IsSystemCall I \<or> IsSystemReturn I \<or>
      IsInterruptCall I \<or> IsInterruptReturn I)"

subsection \<open>Sample instructions\<close>

definition operand ::
  "xed_operand_enum_t \<Rightarrow> xed_operand_visibility_enum_t \<Rightarrow> bool \<Rightarrow> bool \<Rightarrow> xed_operand_t" where
  "operand name vis r w =
     \<lparr>xed_operand_name = name, xed_operand_operand_visibility = vis,
      xed_operand_read = r, xed_operand_written = w\<rparr>"

text \<open>A \<open>NOP\<close> without operands at address \<open>0x1000\<close>, two bytes long, in 64-bit mode.\<close>

definition nop_instr :: Instr where
  "nop_instr =
     \<lparr>instr_address = 0x1000, instr_size = 2, iclass = XED_ICLASS_NOP,
      xed_decoded_inst_noperands = 0,
      xed_inst_operand = (\<lambda>n. operand XED_OPERAND_INVALID XED_OPVIS_SUPPRESSED False False),
      xed_iform = ''NOP'',
      xed_decoded_inst_get_operand_width = 64,
      xed_decoded_inst_get_machine_mode_bits = 64,
      xed_operand_values_get_effective_address_width = 64,
      xed_decoded_inst_get_seg_reg = (\<lambda>n. XED_REG_INVALID),
      xed_decoded_inst_get_base_reg = (\<lambda>n. XED_REG_INVALID),
      xed_decoded_inst_get_index_reg = (\<lambda>n. XED_REG_INVALID),
      xed_decoded_inst_get_memory_displacement = (\<lambda>n. 0),
      xed_decoded_inst_get_scale = (\<lambda>n. 0),
      xed_decoded_inst_get_immediate_width_bits = 0,
      xed_operand_values_get_immediate_is_signed = False,
      xed_decoded_inst_get_signed_immediate = 0,
      xed_decoded_inst_get_unsigned_immediate = 0,
      xed_decoded_inst_get_second_immediate = 0,
      xed_decoded_inst_get_branch_displacement = 0,
      xed_decoded_inst_get_reg = (\<lambda>n. XED_REG_INVALID)\<rparr>"

text \<open>\<open>JMP rel8\<close> and \<open>JZ rel8\<close> with displacement \<open>-5\<close>; \<open>HLT\<close>.\<close>

definition jmp_instr :: Instr where
  "jmp_instr =
     nop_instr\<lparr>iclass := XED_ICLASS_JMP, xed_decoded_inst_noperands := 1,
       xed_inst_operand := (\<lambda>n. operand XED_OPERAND_RELBR XED_OPVIS_EXPLICIT True False),
       xed_iform := ''JMP_RELBRb'',
       xed_decoded_inst_get_branch_displacement := - 5\<rparr>"

definition jz_instr :: Instr where
  "jz_instr = jmp_instr\<lparr>iclass := XED_ICLASS_JZ, xed_iform := ''JZ_RELBRb''\<rparr>"

definition hlt_instr :: Instr where
  "hlt_instr = nop_instr\<lparr>iclass := XED_ICLASS_HLT, xed_iform := ''HLT''\<rparr>"


text \<open>\<open>POP [RSP + 16]\<close> and \<open>ADD GS:[RAX + 16], EAX\<close>, both in 64-bit mode.\<close>

definition pop_instr :: Instr where
  "pop_instr =
     nop_instr\<lparr>iclass := XED_ICLASS_POP, xed_decoded_inst_noperands := 1,
       xed_inst_operand := (\<lambda>n. operand XED_OPERAND_MEM0 XED_OPVIS_EXPLICIT False True),
       xed_iform := ''POP_MEMv'',
       xed_decoded_inst_get_base_reg := (\<lambda>n. XED_REG_RSP),
       xed_decoded_inst_get_memory_displacement := (\<lambda>n. 16),
       xed_decoded_inst_get_scale := (\<lambda>n. 1)\<rparr>"

definition add_gs_instr :: Instr where
  "add_gs_instr =
     nop_instr\<lparr>iclass := XED_ICLASS_ADD, xed_decoded_inst_noperands := 2,
       xed_inst_operand := (\<lambda>n. if n = 0
          then operand XED_OPERAND_MEM0 XED_OPVIS_EXPLICIT True True
          else operand XED_OPERAND_REG0 XED_OPVIS_EXPLICIT True True),
       xed_iform := ''ADD_MEMv_GPRv'',
       xed_decoded_inst_get_operand_width := 32,
       xed_decoded_inst_get_seg_reg := (\<lambda>n. XED_REG_GS),
       xed_decoded_inst_get_base_reg := (\<lambda>n. XED_REG_RAX),
       xed_decoded_inst_get_memory_displacement := (\<lambda>n. 16),
       xed_decoded_inst_get_scale := (\<lambda>n. 1),
       xed_decoded_inst_get_reg := (\<lambda>n. XED_REG_EAX)\<rparr>"

text \<open>An indirect \<open>JMP RAX\<close>.\<close>

definition jmp_reg_instr :: Instr where
  "jmp_reg_instr =
     nop_instr\<lparr>iclass := XED_ICLASS_JMP, xed_decoded_inst_noperands := 1,
       xed_inst_operand := (\<lambda>n. operand XED_OPERAND_REG0 XED_OPVIS_EXPLICIT True False),
       xed_iform := ''JMP_GPRv'',
       xed_decoded_inst_get_reg := (\<lambda>n. XED_REG_RAX)\<rparr>"

text \<open>A lifter, a module without semantics functions, and an empty block.\<close>

definition lifter0 :: Lifter where
  "lifter0 =
     \<lparr>error = Function ''__mcsema_error'', jump = Function ''__mcsema_jump'',
      function_call = Function ''__mcsema_function_call'',
      function_return = Function ''__mcsema_function_return'',
      system_call = Function ''__mcsema_system_call'',
      system_return = Function ''__mcsema_system_return'',
      interrupt_call = Function ''__mcsema_interrupt_call'',
      interrupt_return = Function ''__mcsema_interrupt_return'',
      compute_address = Function ''__mcsema_compute_address'',
      GetLiftedBlockForPC =
        (\<lambda>pc. if pc = 0x0FFD then Function ''block_0xffd'' else Function ''block_other'')\<rparr>"

definition state0 :: lift_state where
  "state0 =
     \<lparr>insts_B = [], blocks_F = [],
      module_M = \<lparr>getFunction = (\<lambda>n. None), getGlobalVariable = (\<lambda>n. None)\<rparr>,
      args = [], append_instrs = [], glog = []\<rparr>"

section \<open>Lemmas\<close>

subsection \<open>The two loops of Mask.h agree\<close>

lemma NthIndex_loop_Nth_loop:
  "NthIndex_loop msk val n i counter offset =
     (case Nth_loop msk val n i counter of Some j \<Rightarrow> (True, j) | None \<Rightarrow> (False, offset))"
proof (induction msk val n i counter rule: Nth_loop.induct)
  case (1 msk val n i counter)
  show ?case
  proof (cases "i < length msk")
    case False
    then show ?thesis
      by (simp add: NthIndex_loop.simps [of msk val n i] Nth_loop.simps [of msk val n i])
  next
    case True
    then show ?thesis
      using "1.IH"
      by (simp add: NthIndex_loop.simps [of msk val n i] Nth_loop.simps [of msk val n i])
  qed
qed

lemma Nth_loop_filter:
  "counter < n \<Longrightarrow>
   Nth_loop msk val n i counter =
     (let idxs = filter (\<lambda>j. msk ! j = val) [i..<length msk]; k = nat (n - counter - 1)
      in if k < length idxs then Some (idxs ! k) else None)"
proof (induction msk val n i counter rule: Nth_loop.induct)
  case (1 msk val n i counter)
  show ?case
  proof (cases "i < length msk")
    case False
    then show ?thesis
      by (simp add: Nth_loop.simps [of msk val n i])
  next
    case True
    note in_range = True
    have upt: "[i..<length msk] = i # [i + 1..<length msk]"
      using in_range by (simp add: upt_conv_Cons)
    show ?thesis
    proof (cases "msk ! i = val")
      case False
      then show ?thesis
        using in_range "1.IH"(2) "1.prems"
        by (simp add: Nth_loop.simps [of msk val n i] upt Let_def)
    next
      case True
      note hit = True
      show ?thesis
      proof (cases "counter + 1 = n")
        case True
        then have "nat (n - counter - 1) = 0" by simp
        then show ?thesis
          using in_range hit True
          by (simp add: Nth_loop.simps [of msk val n i] upt Let_def)
      next
        case False
        then have lt: "counter + 1 < n" using "1.prems" by simp
        then have k: "nat (n - counter - 1) = Suc (nat (n - (counter + 1) - 1))" by simp
        show ?thesis
          using in_range hit False "1.IH"(1) [OF in_range hit False lt]
          by (simp add: Nth_loop.simps [of msk val n i] upt Let_def k del: upt_Suc)
      qed
    qed
  qed
qed

lemma Nth_nth_matching_index: "Nth msk n val = nth_matching_index msk val n"
proof (cases "n < 0")
  case True
  then show ?thesis by (simp add: Nth_def nth_matching_index_def)
next
  case False
  then have "(- 1 :: int) < n" by simp
  from Nth_loop_filter [OF this, of msk val 0] False show ?thesis
    by (simp add: Nth_def nth_matching_index_def matching_indices_def Let_def)
qed

lemma NthIndex_Nth:
  "NthIndex msk val n offset =
     (case Nth msk n val of Some j \<Rightarrow> (True, j) | None \<Rightarrow> (False, offset))"
  by (simp add: NthIndex_def Nth_def NthIndex_loop_Nth_loop)

subsection \<open>The classifier's categories\<close>

lemma IsBranch_exclusive:
  assumes "IsBranch I"
  shows "\<not> IsError I" "\<not> IsDirectJump I" "\<not> IsIndirectJump I" "\<not> IsDirectFunctionCall I"
    "\<not> IsIndirectFunctionCall I" "\<not> IsFunctionReturn I"
  using assms
  by (cases "iclass I";
      simp add: IsBranch_def IsError_def IsDirectJump_def IsIndirectJump_def
        IsDirectFunctionCall_def IsIndirectFunctionCall_def IsFunctionReturn_def Let_def)+

lemma IsDirectJump_not_IsError: "IsDirectJump I \<Longrightarrow> \<not> IsError I"
  by (auto simp: IsDirectJump_def IsError_def Let_def)

lemma IsJump_split: "IsJump I \<longleftrightarrow> IsDirectJump I \<or> IsIndirectJump I"
  by (auto simp: IsJump_def IsDirectJump_def IsIndirectJump_def Let_def)

lemma IsFunctionCall_split:
  "IsFunctionCall I \<longleftrightarrow> IsDirectFunctionCall I \<or> IsIndirectFunctionCall I"
  by (auto simp: IsFunctionCall_def IsDirectFunctionCall_def IsIndirectFunctionCall_def Let_def)

lemma largest_enclosing_RSP:
  "xed_get_largest_enclosing_register r = XED_REG_RSP \<longleftrightarrow> r \<in> stack_pointer_family"
  by (cases r) (simp_all add: stack_pointer_family_def)

subsection \<open>Pointer-sized arithmetic\<close>

lemma uint_scast_32_64: "uint (scast (d :: 32 word) :: 64 word) = sint d mod 2 ^ 64"
proof -
  have "(scast d :: 64 word) = word_of_int (sint d)"
    by (simp only: of_int_sint)
  then show ?thesis
    by (simp only: uint_word_of_int) simp
qed

lemma uint_target:
  "uint (a + s + scast d :: 64 word) = (uint a + uint s + sint (d :: 32 word)) mod 2 ^ 64"
proof -
  have "uint (a + s + scast d :: 64 word) =
      (uint a + uint s + uint (scast d :: 64 word)) mod 2 ^ 64"
    by (simp add: uint_word_ariths mod_simps)
  also have "\<dots> = (uint a + uint s + sint d mod 2 ^ 64) mod 2 ^ 64"
    by (simp only: uint_scast_32_64)
  also have "\<dots> = (uint a + uint s + sint d) mod 2 ^ 64"
    by (simp only: mod_add_right_eq)
  finally show ?thesis .
qed

lemma TargetPC_Inr:
  "IsDirectJump I \<or> IsDirectFunctionCall I \<or> IsBranch I \<Longrightarrow>
   TargetPC I = Inr (instr_address I + instr_size I +
                     scast (xed_decoded_inst_get_branch_displacement I))"
  by (simp add: TargetPC_def NextPC_def Let_def)

subsection \<open>The effect of each function on the state\<close>

lemma RegToValue_fst: "fst (RegToValue w r st) = spec_register_value w r"
  by (simp add: RegToValue_def spec_register_value_def ir_Create_def Let_def)

lemma RegToValue_snd:
  "snd (RegToValue w r st) =
     st\<lparr>insts_B := insts_B st @ drop (length (insts_B st)) (insts_B (snd (RegToValue w r st)))\<rparr>"
  by (simp add: RegToValue_def ir_Create_def Let_def)

lemma RegToValue_eq:
  "\<exists>xs. RegToValue w r st = (spec_register_value w r, st\<lparr>insts_B := insts_B st @ xs\<rparr>)"
proof -
  have "RegToValue w r st = (fst (RegToValue w r st), snd (RegToValue w r st))" by simp
  then have "RegToValue w r st =
      (spec_register_value w r,
       st\<lparr>insts_B := insts_B st @ drop (length (insts_B st)) (insts_B (snd (RegToValue w r st)))\<rparr>)"
    using RegToValue_fst [of w r st] RegToValue_snd [of w r st] by simp
  then show ?thesis by blast
qed

lemma LiftMemory_sum_eq:
  "\<exists>xs. LiftMemory_sum I k st =
     ((spec_base_value I k,
       Add (Add (spec_base_value I k)
              (Mul (spec_register_value (xed_decoded_inst_get_machine_mode_bits I)
                      (xed_decoded_inst_get_index_reg I k))
                   (ConstantInt (xed_decoded_inst_get_machine_mode_bits I)
                      (of_nat (xed_decoded_inst_get_scale I k)) True)))
           (if 32 < xed_decoded_inst_get_machine_mode_bits I
            then SExt (ConstantInt 32 (xed_decoded_inst_get_memory_displacement I k) True)
                   (xed_decoded_inst_get_machine_mode_bits I)
            else ConstantInt 32 (xed_decoded_inst_get_memory_displacement I k) True)),
      st\<lparr>insts_B := insts_B st @ xs\<rparr>)"
proof -
  let ?w = "xed_decoded_inst_get_machine_mode_bits I"
  obtain xs1 where r1: "RegToValue ?w (xed_decoded_inst_get_base_reg I k) st =
      (spec_register_value ?w (xed_decoded_inst_get_base_reg I k),
       st\<lparr>insts_B := insts_B st @ xs1\<rparr>)"
    using RegToValue_eq by blast
  obtain xs2 where r2:
    "RegToValue ?w (xed_decoded_inst_get_index_reg I k) (st\<lparr>insts_B := insts_B st @ xs1\<rparr>) =
      (spec_register_value ?w (xed_decoded_inst_get_index_reg I k),
       st\<lparr>insts_B := insts_B st @ xs1 @ xs2\<rparr>)"
    using RegToValue_eq [of ?w "xed_decoded_inst_get_index_reg I k"
        "st\<lparr>insts_B := insts_B st @ xs1\<rparr>"]
    by auto
  have v: "fst (LiftMemory_sum I k st) =
     (spec_base_value I k,
       Add (Add (spec_base_value I k)
              (Mul (spec_register_value ?w (xed_decoded_inst_get_index_reg I k))
                   (ConstantInt ?w (of_nat (xed_decoded_inst_get_scale I k)) True)))
           (if 32 < ?w
            then SExt (ConstantInt 32 (xed_decoded_inst_get_memory_displacement I k) True) ?w
            else ConstantInt 32 (xed_decoded_inst_get_memory_displacement I k) True))"
    by (simp add: LiftMemory_sum_def r1 r2 Let_def ir_Create_def spec_base_value_def
        largest_enclosing_RSP)
  have e: "snd (LiftMemory_sum I k st) =
     st\<lparr>insts_B := insts_B st @
        drop (length (insts_B st)) (insts_B (snd (LiftMemory_sum I k st)))\<rparr>"
    by (simp add: LiftMemory_sum_def r1 r2 Let_def ir_Create_def)
  have "LiftMemory_sum I k st = (fst (LiftMemory_sum I k st), snd (LiftMemory_sum I k st))"
    by simp
  with v e show ?thesis by metis
qed

lemma LiftMemory_A_eq:
  "\<exists>xs. LiftMemory_A I k st = (spec_address I k, st\<lparr>insts_B := insts_B st @ xs\<rparr>)"
proof -
  obtain xs v where s: "LiftMemory_sum I k st =
     ((spec_base_value I k, v), st\<lparr>insts_B := insts_B st @ xs\<rparr>)"
    and v: "v = Add (Add (spec_base_value I k)
              (Mul (spec_register_value (xed_decoded_inst_get_machine_mode_bits I)
                      (xed_decoded_inst_get_index_reg I k))
                   (ConstantInt (xed_decoded_inst_get_machine_mode_bits I)
                      (of_nat (xed_decoded_inst_get_scale I k)) True)))
           (if 32 < xed_decoded_inst_get_machine_mode_bits I
            then SExt (ConstantInt 32 (xed_decoded_inst_get_memory_displacement I k) True)
                   (xed_decoded_inst_get_machine_mode_bits I)
            else ConstantInt 32 (xed_decoded_inst_get_memory_displacement I k) True)"
    using LiftMemory_sum_eq [of I k st] by blast
  have "LiftMemory_A I k st =
     (spec_address I k,
      st\<lparr>insts_B := insts_B st @
        (if (xed_decoded_inst_get_base_reg I k = XED_REG_INVALID \<and>
             xed_decoded_inst_get_index_reg I k = XED_REG_INVALID) \<or>
            xed_decoded_inst_get_base_reg I k = XED_REG_RIP then [] else xs)\<rparr>)"
    by (simp add: LiftMemory_A_def spec_address_def s v Let_def)
  then show ?thesis by blast
qed

lemma LiftMemory_eq:
  "\<exists>xs. LiftMemory lifter I xedo n st =
     st\<lparr>insts_B := insts_B st @ xs,
        args := args st @
          (if xed_operand_written xedo then [spec_final_address lifter I xedo] else []) @
          (if xed_operand_read xedo then [spec_final_address lifter I xedo] else [])\<rparr>"
proof -
  let ?k = "if xed_operand_name xedo = XED_OPERAND_MEM1 then 1 else 0 :: nat"
  obtain xs where a: "LiftMemory_A I ?k st =
      (spec_address I ?k, st\<lparr>insts_B := insts_B st @ xs\<rparr>)"
    using LiftMemory_A_eq by blast
  have "LiftMemory lifter I xedo n st =
     st\<lparr>insts_B := insts_B st @
          drop (length (insts_B st)) (insts_B (LiftMemory lifter I xedo n st)),
        args := args st @
          (if xed_operand_written xedo then [spec_final_address lifter I xedo] else []) @
          (if xed_operand_read xedo then [spec_final_address lifter I xedo] else [])\<rparr>"
    using a
    by (simp add: LiftMemory_def spec_final_address_def Let_def ir_Create_def
        args_push_back_def)
  then show ?thesis by blast
qed

lemma LiftRegister_eq:
  "\<exists>xs. LiftRegister I xedo st =
     st\<lparr>insts_B := insts_B st @ xs,
        args := args st @
          (if xed_operand_written xedo
           then [spec_write_handle (xed_decoded_inst_get_reg I (xed_operand_name xedo))]
           else []) @
          (if xed_operand_read xedo
           then [spec_read_value (xed_decoded_inst_get_reg I (xed_operand_name xedo))]
           else [])\<rparr>"
proof -
  have "LiftRegister I xedo st =
     st\<lparr>insts_B := insts_B st @ drop (length (insts_B st)) (insts_B (LiftRegister I xedo st)),
        args := args st @
          (if xed_operand_written xedo
           then [spec_write_handle (xed_decoded_inst_get_reg I (xed_operand_name xedo))]
           else []) @
          (if xed_operand_read xedo
           then [spec_read_value (xed_decoded_inst_get_reg I (xed_operand_name xedo))]
           else [])\<rparr>"
    by (simp add: LiftRegister_def spec_write_handle_def spec_read_value_def Let_def
        ir_Create_def args_push_back_def kVectorRegAlign_def)
  then show ?thesis by blast
qed

lemma LiftImmediate_eq:
  "LiftImmediate I name st = Inr st' \<Longrightarrow>
   st' = st\<lparr>args := args st @ [spec_immediate I name]\<rparr>"
  by (auto simp: LiftImmediate_def spec_immediate_def Let_def args_push_back_def
      split: if_splits)

lemma LiftBranchDisplacement_eq:
  "LiftBranchDisplacement I st = Inr st' \<Longrightarrow>
   st' = st\<lparr>args := args st @
     [ConstantInt (xed_decoded_inst_get_machine_mode_bits I)
        (NextPC I + scast (xed_decoded_inst_get_branch_displacement I)) True]\<rparr>"
  by (auto simp: LiftBranchDisplacement_def TargetPC_def Let_def args_push_back_def
      split: if_splits sum.splits)

lemma LiftOperand_eq:
  assumes "LiftOperand lifter I n st = Inr st'"
  shows "\<exists>xs. st' = st\<lparr>insts_B := insts_B st @ xs,
           args := args st @
             (if is_visible (xed_inst_operand I n)
              then spec_operand_args lifter I (xed_inst_operand I n) else [])\<rparr>"
proof (cases "is_visible (xed_inst_operand I n)")
  case False
  with assms have "st' = st\<lparr>insts_B := insts_B st @ [], args := args st @ []\<rparr>"
    by (simp add: LiftOperand_def is_visible_def Let_def)
  with False show ?thesis by (metis (full_types))
next
  case True
  let ?o = "xed_inst_operand I n"
  from True have vis: "xed_operand_operand_visibility ?o \<noteq> XED_OPVIS_SUPPRESSED"
    by (simp add: is_visible_def)
  consider (mem) "is_memory_operand ?o" | (reg) "is_register_operand ?o"
    | (imm) "is_immediate_operand ?o" | (rel) "xed_operand_name ?o = XED_OPERAND_RELBR"
    | (other) "\<not> is_memory_operand ?o" "\<not> is_register_operand ?o"
        "\<not> is_immediate_operand ?o" "xed_operand_name ?o \<noteq> XED_OPERAND_RELBR"
    by blast
  then show ?thesis
  proof cases
    case mem
    then have "LiftOperand lifter I n st = Inr (LiftMemory lifter I ?o n st)"
      using vis by (auto simp: LiftOperand_def is_memory_operand_def Let_def)
    with assms have "st' = LiftMemory lifter I ?o n st" by simp
    with LiftMemory_eq [of lifter I ?o n st] mem True show ?thesis
      by (simp add: spec_operand_args_def)
  next
    case reg
    then have "LiftOperand lifter I n st = Inr (LiftRegister I ?o st)"
      using vis by (auto simp: LiftOperand_def is_register_operand_def Let_def)
    with assms have "st' = LiftRegister I ?o st" by simp
    moreover from reg have "\<not> is_memory_operand ?o"
      by (auto simp: is_register_operand_def is_memory_operand_def)
    ultimately show ?thesis
      using LiftRegister_eq [of I ?o st] reg True by (simp add: spec_operand_args_def)
  next
    case imm
    then have "LiftOperand lifter I n st = LiftImmediate I (xed_operand_name ?o) st"
      using vis by (auto simp: LiftOperand_def is_immediate_operand_def Let_def)
    with assms have "st' = st\<lparr>args := args st @ [spec_immediate I (xed_operand_name ?o)]\<rparr>"
      by (simp add: LiftImmediate_eq)
    moreover from imm have "\<not> is_memory_operand ?o" "\<not> is_register_operand ?o"
      by (auto simp: is_register_operand_def is_memory_operand_def is_immediate_operand_def)
    ultimately have "st' = st\<lparr>insts_B := insts_B st @ [],
        args := args st @ spec_operand_args lifter I ?o\<rparr>"
      using imm by (simp add: spec_operand_args_def)
    with True show ?thesis by (metis (full_types))
  next
    case rel
    then have "LiftOperand lifter I n st = LiftBranchDisplacement I st"
      using vis by (simp add: LiftOperand_def Let_def)
    with assms have "st' = st\<lparr>args := args st @
       [ConstantInt (xed_decoded_inst_get_machine_mode_bits I)
          (NextPC I + scast (xed_decoded_inst_get_branch_displacement I)) True]\<rparr>"
      by (simp add: LiftBranchDisplacement_eq)
    moreover from rel have "\<not> is_memory_operand ?o" "\<not> is_register_operand ?o"
        "\<not> is_immediate_operand ?o"
      by (auto simp: is_register_operand_def is_memory_operand_def is_immediate_operand_def)
    ultimately have "st' = st\<lparr>insts_B := insts_B st @ [],
        args := args st @ spec_operand_args lifter I ?o\<rparr>"
      using rel by (simp add: spec_operand_args_def)
    with True show ?thesis by (metis (full_types))
  next
    case other
    then have "\<exists>e. LiftOperand lifter I n st = Inl e"
      using vis
      by (cases "xed_operand_name ?o")
        (simp_all add: LiftOperand_def Let_def is_memory_operand_def is_register_operand_def
          is_immediate_operand_def)
    with assms show ?thesis by auto
  qed
qed

lemma LiftOperands_eq:
  "LiftOperands lifter I ns st = Inr st' \<Longrightarrow>
   \<exists>xs. st' = st\<lparr>insts_B := insts_B st @ xs,
           args := args st @
             concat (map (spec_operand_args lifter I)
                       (filter is_visible (map (xed_inst_operand I) ns)))\<rparr>"
proof (induction ns arbitrary: st)
  case Nil
  then have "st' = st\<lparr>insts_B := insts_B st @ [], args := args st @ []\<rparr>" by simp
  then show ?case by (simp del: append_Nil2) blast
next
  case (Cons n ns)
  from Cons.prems obtain st1 where
    s1: "LiftOperand lifter I n st = Inr st1" and s2: "LiftOperands lifter I ns st1 = Inr st'"
    by (auto split: sum.splits)
  from LiftOperand_eq [OF s1] obtain xs1 where
    e1: "st1 = st\<lparr>insts_B := insts_B st @ xs1,
           args := args st @
             (if is_visible (xed_inst_operand I n)
              then spec_operand_args lifter I (xed_inst_operand I n) else [])\<rparr>"
    by blast
  from Cons.IH [OF s2] obtain xs2 where
    e2: "st' = st1\<lparr>insts_B := insts_B st1 @ xs2,
           args := args st1 @
             concat (map (spec_operand_args lifter I)
                       (filter is_visible (map (xed_inst_operand I) ns)))\<rparr>"
    by blast
  have "st' = st\<lparr>insts_B := insts_B st @ (xs1 @ xs2),
           args := args st @
             concat (map (spec_operand_args lifter I)
                       (filter is_visible (map (xed_inst_operand I) (n # ns))))\<rparr>"
    by (simp add: e1 e2)
  then show ?case by blast
qed

lemma LiftGeneric_eq:
  assumes "LiftGeneric FLAGS_os lifter I st = Inr st'"
  shows "\<exists>xs lg. st' = st\<lparr>insts_B := insts_B st @ xs,
           args := args st @ Argument 0 #
             concat (map (spec_operand_args lifter I) (visible_operands I)),
           glog := glog st @ lg\<rparr>"
proof -
  let ?st0 = "args_push_back (Argument 0) st"
  let ?c = "concat (map (spec_operand_args lifter I) (visible_operands I))"
  from assms obtain st1 where
    s1: "LiftOperands lifter I [0..<xed_decoded_inst_noperands I] ?st0 = Inr st1"
    by (auto simp: LiftGeneric_def Let_def split: sum.splits)
  from LiftOperands_eq [OF s1] obtain xs1 where
    e1: "st1 = st\<lparr>insts_B := insts_B st @ xs1, args := args st @ Argument 0 # ?c\<rparr>"
    by (auto simp: args_push_back_def visible_operands_def)
  have "st' = st\<lparr>insts_B := insts_B st @ drop (length (insts_B st)) (insts_B st'),
           args := args st @ Argument 0 # ?c,
           glog := glog st @ drop (length (glog st)) (glog st')\<rparr>"
    using assms s1
    by (auto simp: LiftGeneric_def Let_def e1 ir_Create_def LOG_def
        split: sum.splits option.splits if_splits)
  then show ?thesis by blast
qed

text \<open>The name that \<open>PCRegName\<close> returns depends on the instruction alone.\<close>

lemma PCRegName_eq:
  "\<exists>name lg. \<forall>s. PCRegName I s = Inr (name, s\<lparr>glog := glog s @ lg\<rparr>)"
proof -
  let ?w = "xed_operand_values_get_effective_address_width I"
  consider (rip) "?w = 64" | (eip) "?w = 32" | (ip) "?w = 16"
    | (none) "?w \<noteq> 64" "?w \<noteq> 32" "?w \<noteq> 16"
    by blast
  then show ?thesis
  proof cases
    case rip
    then have "\<forall>s. PCRegName I s = Inr (''RIP'', s\<lparr>glog := glog s @ []\<rparr>)"
      by (simp add: PCRegName_def)
    then show ?thesis by blast
  next
    case eip
    then have "\<forall>s. PCRegName I s = Inr (''EIP'', s\<lparr>glog := glog s @ []\<rparr>)"
      by (simp add: PCRegName_def)
    then show ?thesis by blast
  next
    case ip
    then have "\<forall>s. PCRegName I s = Inr (''IP'', s\<lparr>glog := glog s @ []\<rparr>)"
      by (simp add: PCRegName_def)
    then show ?thesis by blast
  next
    case none
    then have "\<forall>s. PCRegName I s =
        Inr ([], s\<lparr>glog := glog s @ [(ERROR, ''Unexpected address width.'')]\<rparr>)"
      by (simp add: PCRegName_def LOG_def)
    then show ?thesis by blast
  qed
qed

lemma PCRegName_64:
  assumes "xed_operand_values_get_effective_address_width I = 64"
  shows "\<forall>s. \<exists>lg. PCRegName I s = Inr (''RIP'', s\<lparr>glog := glog s @ lg\<rparr>)"
proof
  fix s
  have "PCRegName I s = Inr (''RIP'', s\<lparr>glog := glog s @ []\<rparr>)"
    using assms by (simp add: PCRegName_def)
  then show "\<exists>lg. PCRegName I s = Inr (''RIP'', s\<lparr>glog := glog s @ lg\<rparr>)"
    by blast
qed

lemma LiftPC_eq:
  "PCRegName I st = Inr (name, st\<lparr>glog := glog st @ lg\<rparr>) \<Longrightarrow>
   LiftPC I st = Inr (st\<lparr>insts_B := insts_B st @
        [Load (VarInFunction (name @ ''_write'')),
         Store (ConstantInt (xed_decoded_inst_get_machine_mode_bits I) (NextPC I) False)
           (Load (VarInFunction (name @ ''_write'')))],
        glog := glog st @ lg\<rparr>)"
  by (simp add: LiftPC_def Let_def ir_Create_def)

lemma LiftConditionalBranch_eq:
  assumes "IsBranch I" and "PCRegName I st = Inr (name, st\<lparr>glog := glog st @ lg\<rparr>)"
  shows "LiftConditionalBranch lifter I st =
       Inr (st\<lparr>insts_B := insts_B st @
              [Load (VarInFunction (name @ ''_read'')),
               Load (Load (VarInFunction (name @ ''_read''))),
               ICmpEQ (ConstantInt (xed_decoded_inst_get_machine_mode_bits I)
                         (instr_address I + instr_size I +
                          scast (xed_decoded_inst_get_branch_displacement I)) False)
                      (Load (Load (VarInFunction (name @ ''_read'')))),
               CondBr
                 (ICmpEQ (ConstantInt (xed_decoded_inst_get_machine_mode_bits I)
                            (instr_address I + instr_size I +
                             scast (xed_decoded_inst_get_branch_displacement I)) False)
                         (Load (Load (VarInFunction (name @ ''_read'')))))
                 (length (blocks_F st)) (Suc (length (blocks_F st)))],
            blocks_F := blocks_F st @
              [\<lparr>block_name = ''branch_taken'',
                block_insts = [TerminatingTailCall (GetLiftedBlockForPC lifter
                   (instr_address I + instr_size I +
                    scast (xed_decoded_inst_get_branch_displacement I)))]\<rparr>,
               \<lparr>block_name = ''fall_through'',
                block_insts = [TerminatingTailCall (GetLiftedBlockForPC lifter
                   (instr_address I + instr_size I))]\<rparr>],
            glog := glog st @ lg\<rparr>)"
proof -
  have t: "TargetPC I = Inr (instr_address I + instr_size I +
                     scast (xed_decoded_inst_get_branch_displacement I))"
    using assms(1) by (simp add: TargetPC_def NextPC_def Let_def)
  show ?thesis
    by (simp add: LiftConditionalBranch_def t assms(2) Let_def ir_Create_def
        BasicBlock_Create_def AddTerminatingTailCall_F_def AddTerminatingTailCall_def
        NextPC_def nth_append list_update_append)
qed

lemma LiftPC_Generic_eq:
  assumes "LiftPC_Generic FLAGS_os lifter I st = Inr st'"
    and "PCRegName I st = Inr (name, st\<lparr>glog := glog st @ lg1\<rparr>)"
  shows "\<exists>xs lg. st' = st\<lparr>insts_B := insts_B st @
             [Load (VarInFunction (name @ ''_write'')),
              Store (ConstantInt (xed_decoded_inst_get_machine_mode_bits I) (NextPC I) False)
                (Load (VarInFunction (name @ ''_write'')))] @ xs,
           args := args st @ Argument 0 #
             concat (map (spec_operand_args lifter I) (visible_operands I)),
           glog := glog st @ lg\<rparr>"
proof -
  let ?s1 = "st\<lparr>insts_B := insts_B st @
        [Load (VarInFunction (name @ ''_write'')),
         Store (ConstantInt (xed_decoded_inst_get_machine_mode_bits I) (NextPC I) False)
           (Load (VarInFunction (name @ ''_write'')))],
        glog := glog st @ lg1\<rparr>"
  from assms have g: "LiftGeneric FLAGS_os lifter I ?s1 = Inr st'"
    by (simp add: LiftPC_Generic_def LiftPC_eq)
  from LiftGeneric_eq [OF g] obtain xs lg where
    "st' = ?s1\<lparr>insts_B := insts_B ?s1 @ xs,
           args := args ?s1 @ Argument 0 #
             concat (map (spec_operand_args lifter I) (visible_operands I)),
           glog := glog ?s1 @ lg\<rparr>" by blast
  then have "st' = st\<lparr>insts_B := insts_B st @
        [Load (VarInFunction (name @ ''_write'')),
         Store (ConstantInt (xed_decoded_inst_get_machine_mode_bits I) (NextPC I) False)
           (Load (VarInFunction (name @ ''_write'')))] @ xs,
           args := args st @ Argument 0 #
             concat (map (spec_operand_args lifter I) (visible_operands I)),
           glog := glog st @ (lg1 @ lg)\<rparr>" by simp
  then show ?thesis by blast
qed

lemma RegToValue_no_Call:
  "Call f xs \<notin> set (drop (length (insts_B st)) (insts_B (snd (RegToValue w r st))))"
  by (simp add: RegToValue_def ir_Create_def Let_def)

lemma LiftMemory_A_no_Call:
  "Call f xs \<notin> set (drop (length (insts_B st)) (insts_B (snd (LiftMemory_A I k st))))"
proof -
  let ?w = "xed_decoded_inst_get_machine_mode_bits I"
  let ?b = "xed_decoded_inst_get_base_reg I k"
  let ?i = "xed_decoded_inst_get_index_reg I k"
  obtain xs1 where r1: "RegToValue ?w ?b st =
      (spec_register_value ?w ?b, st\<lparr>insts_B := insts_B st @ xs1\<rparr>)"
    using RegToValue_eq by blast
  obtain xs2 where r2: "RegToValue ?w ?i (st\<lparr>insts_B := insts_B st @ xs1\<rparr>) =
      (spec_register_value ?w ?i, st\<lparr>insts_B := insts_B st @ xs1 @ xs2\<rparr>)"
    using RegToValue_eq [of ?w ?i "st\<lparr>insts_B := insts_B st @ xs1\<rparr>"] by auto
  have n1: "Call f xs \<notin> set xs1"
    using RegToValue_no_Call [of f xs st ?w ?b] by (simp add: r1)
  have n2: "Call f xs \<notin> set xs2"
    using RegToValue_no_Call [of f xs "st\<lparr>insts_B := insts_B st @ xs1\<rparr>" ?w ?i]
    by (simp add: r2)
  show ?thesis
    using n1 n2 by (simp add: LiftMemory_A_def LiftMemory_sum_def r1 r2 Let_def ir_Create_def)
qed

lemma spec_address_no_Call: "spec_address I k \<noteq> Call f xs"
  by (simp add: spec_address_def Let_def)

subsection \<open>The branches of LiftIntoBlock\<close>

lemma LiftIntoBlock_none:
  "matches_no_predicate I \<Longrightarrow>
   LiftIntoBlock FLAGS_os lifter I st =
     (case LiftGeneric FLAGS_os lifter I st of Inl e \<Rightarrow> Inl e | Inr s \<Rightarrow> Inr (True, s))"
  by (simp add: matches_no_predicate_def LiftIntoBlock_def)

lemma LiftIntoBlock_some:
  "\<not> matches_no_predicate I \<Longrightarrow> LiftIntoBlock FLAGS_os lifter I st = Inr (b, s) \<Longrightarrow> \<not> b"
  by (auto simp: matches_no_predicate_def LiftIntoBlock_def IsJump_split IsFunctionCall_split
      split: if_splits sum.splits)

lemma lifts_pc_first_cases:
  assumes "lifts_pc_first I"
  shows "\<exists>f lg.
     LiftIntoBlock FLAGS_os lifter I st =
       (case LiftPC_Generic FLAGS_os lifter I st of
          Inl e \<Rightarrow> Inl e
        | Inr s2 \<Rightarrow>
            (if IsBranch I
             then (case LiftConditionalBranch lifter I s2 of
                     Inl e \<Rightarrow> Inl e | Inr s3 \<Rightarrow> Inr (False, s3))
             else Inr (False, s2\<lparr>insts_B := insts_B s2 @ [TerminatingTailCall f],
                                 glog := glog s2 @ lg\<rparr>)))"
proof -
  let ?rhs = "\<lambda>f lg. (case LiftPC_Generic FLAGS_os lifter I st of
          Inl e \<Rightarrow> Inl e
        | Inr s2 \<Rightarrow>
            (if IsBranch I
             then (case LiftConditionalBranch lifter I s2 of
                     Inl e \<Rightarrow> Inl e | Inr s3 \<Rightarrow> Inr (False, s3))
             else Inr (False, s2\<lparr>insts_B := insts_B s2 @ [TerminatingTailCall f],
                                 glog := glog s2 @ lg\<rparr>)))"
  have tp: "IsDirectFunctionCall I \<Longrightarrow> TargetPC I = Inr (instr_address I + instr_size I +
                     scast (xed_decoded_inst_get_branch_displacement I))"
    by (simp add: TargetPC_Inr)
  from assms have ne: "\<not> IsError I" and nj: "\<not> IsDirectJump I"
    by (simp_all add: lifts_pc_first_def)
  from assms consider (ij) "IsIndirectJump I"
    | (dc) "\<not> IsIndirectJump I" "IsDirectFunctionCall I"
    | (ic) "\<not> IsIndirectJump I" "\<not> IsDirectFunctionCall I" "IsIndirectFunctionCall I"
    | (ret) "\<not> IsIndirectJump I" "\<not> IsDirectFunctionCall I" "\<not> IsIndirectFunctionCall I"
        "IsFunctionReturn I"
    | (br) "\<not> IsIndirectJump I" "\<not> IsDirectFunctionCall I" "\<not> IsIndirectFunctionCall I"
        "\<not> IsFunctionReturn I" "IsBranch I"
    | (sc) "\<not> IsIndirectJump I" "\<not> IsDirectFunctionCall I" "\<not> IsIndirectFunctionCall I"
        "\<not> IsFunctionReturn I" "\<not> IsBranch I" "IsSystemCall I"
    | (sr) "\<not> IsIndirectJump I" "\<not> IsDirectFunctionCall I" "\<not> IsIndirectFunctionCall I"
        "\<not> IsFunctionReturn I" "\<not> IsBranch I" "\<not> IsSystemCall I" "IsSystemReturn I"
    | (ic') "\<not> IsIndirectJump I" "\<not> IsDirectFunctionCall I" "\<not> IsIndirectFunctionCall I"
        "\<not> IsFunctionReturn I" "\<not> IsBranch I" "\<not> IsSystemCall I" "\<not> IsSystemReturn I"
        "IsInterruptCall I"
    | (ir) "\<not> IsIndirectJump I" "\<not> IsDirectFunctionCall I" "\<not> IsIndirectFunctionCall I"
        "\<not> IsFunctionReturn I" "\<not> IsBranch I" "\<not> IsSystemCall I" "\<not> IsSystemReturn I"
        "\<not> IsInterruptCall I" "IsInterruptReturn I"
    by (auto simp: lifts_pc_first_def)
  then show ?thesis
  proof cases
    case ij
    then have nb: "\<not> IsBranch I" using IsBranch_exclusive(3) by blast
    have "LiftIntoBlock FLAGS_os lifter I st = ?rhs (jump lifter) []"
      using ne nj ij nb
      by (simp add: LiftIntoBlock_def AddTerminatingTailCall_B_def AddTerminatingTailCall_def
          split: sum.splits)
    then show ?thesis by blast
  next
    case dc
    then have nb: "\<not> IsBranch I" using IsBranch_exclusive(4) by blast
    have "LiftIntoBlock FLAGS_os lifter I st =
        ?rhs (GetLiftedBlockForPC lifter (instr_address I + instr_size I +
                     scast (xed_decoded_inst_get_branch_displacement I))) []"
      using ne nj dc nb tp
      by (simp add: LiftIntoBlock_def AddTerminatingTailCall_B_def AddTerminatingTailCall_def
          split: sum.splits)
    then show ?thesis by blast
  next
    case ic
    then have nb: "\<not> IsBranch I" using IsBranch_exclusive(5) by blast
    have "LiftIntoBlock FLAGS_os lifter I st = ?rhs (function_call lifter) []"
      using ne nj ic nb
      by (simp add: LiftIntoBlock_def AddTerminatingTailCall_B_def AddTerminatingTailCall_def
          split: sum.splits)
    then show ?thesis by blast
  next
    case ret
    then have nb: "\<not> IsBranch I" using IsBranch_exclusive(6) by blast
    have "LiftIntoBlock FLAGS_os lifter I st = ?rhs (function_return lifter) []"
      using ne nj ret nb
      by (simp add: LiftIntoBlock_def AddTerminatingTailCall_B_def AddTerminatingTailCall_def
          split: sum.splits)
    then show ?thesis by blast
  next
    case br
    have "LiftIntoBlock FLAGS_os lifter I st = ?rhs (error lifter) []"
      using ne nj br
      by (simp add: LiftIntoBlock_def split: sum.splits)
    then show ?thesis by blast
  next
    case sc
    have "LiftIntoBlock FLAGS_os lifter I st = ?rhs (system_call lifter) []"
      using ne nj sc
      by (simp add: LiftIntoBlock_def AddTerminatingTailCall_B_def AddTerminatingTailCall_def
          split: sum.splits)
    then show ?thesis by blast
  next
    case sr
    have "LiftIntoBlock FLAGS_os lifter I st = ?rhs (system_return lifter)
        [(WARNING, ''Unsupported instruction (system return) at PC '')]"
      using ne nj sr
      by (simp add: LiftIntoBlock_def AddTerminatingTailCall_B_def AddTerminatingTailCall_def
          LOG_def split: sum.splits)
    then show ?thesis by blast
  next
    case ic'
    have "LiftIntoBlock FLAGS_os lifter I st = ?rhs (interrupt_call lifter) []"
      using ne nj ic'
      by (simp add: LiftIntoBlock_def AddTerminatingTailCall_B_def AddTerminatingTailCall_def
          split: sum.splits)
    then show ?thesis by blast
  next
    case ir
    have "LiftIntoBlock FLAGS_os lifter I st = ?rhs (interrupt_return lifter)
        [(WARNING, ''Unsupported instruction (system return) at PC '')]"
      using ne nj ir
      by (simp add: LiftIntoBlock_def AddTerminatingTailCall_B_def AddTerminatingTailCall_def
          LOG_def split: sum.splits)
    then show ?thesis by blast
  qed
qed

subsection \<open>The sample instructions\<close>

lemma nop_matches_none: "matches_no_predicate nop_instr"
  by (simp add: matches_no_predicate_def nop_instr_def operand_def IsError_def IsDirectJump_def
      IsIndirectJump_def IsDirectFunctionCall_def IsIndirectFunctionCall_def
      IsFunctionReturn_def IsBranch_def IsSystemCall_def IsSystemReturn_def
      IsInterruptCall_def IsInterruptReturn_def IsJump_def IsFunctionCall_def)

lemma nop_LiftGeneric:
  "LiftGeneric [] lifter0 nop_instr state0 =
     Inr (state0\<lparr>args := [Argument 0],
            glog := [(WARNING, ''Missing instruction semantics for '')]\<rparr>)"
  by (simp add: LiftGeneric_def nop_instr_def state0_def args_push_back_def LOG_def)

lemma jmp_IsDirectJump: "IsDirectJump jmp_instr"
  by (simp add: jmp_instr_def nop_instr_def IsDirectJump_def operand_def)

lemma jmp_not_IsError: "\<not> IsError jmp_instr"
  by (simp add: jmp_instr_def nop_instr_def IsError_def)

lemma jmp_PCRegName:
  "\<forall>s. \<exists>lg. PCRegName jmp_instr s = Inr (''RIP'', s\<lparr>glog := glog s @ lg\<rparr>)"
  by (rule PCRegName_64) (simp add: jmp_instr_def nop_instr_def)

lemma jz_IsBranch: "IsBranch jz_instr"
  by (simp add: jz_instr_def jmp_instr_def nop_instr_def IsBranch_def)

lemma jz_PCRegName: "\<forall>s. \<exists>lg. PCRegName jz_instr s = Inr (''RIP'', s\<lparr>glog := glog s @ lg\<rparr>)"
proof
  fix s
  have "PCRegName jz_instr s = Inr (''RIP'', s\<lparr>glog := glog s @ []\<rparr>)"
    by (simp add: PCRegName_def jz_instr_def jmp_instr_def nop_instr_def)
  then show "\<exists>lg. PCRegName jz_instr s = Inr (''RIP'', s\<lparr>glog := glog s @ lg\<rparr>)" by blast
qed

lemma jz_LiftGeneric:
  assumes "module_M s0 = module_M state0"
  shows "\<exists>s. LiftGeneric [] lifter0 jz_instr s0 = Inr s"
proof -
  have o: "[0..<xed_decoded_inst_noperands jz_instr] = [0]"
    "xed_inst_operand jz_instr 0 = operand XED_OPERAND_RELBR XED_OPVIS_EXPLICIT True False"
    by (simp_all add: jz_instr_def jmp_instr_def nop_instr_def)
  have t: "TargetPC jz_instr = Inr 0x0FFD"
    using TargetPC_Inr [of jz_instr] jz_IsBranch
    by (simp add: jz_instr_def jmp_instr_def nop_instr_def)
  have "\<exists>s. LiftOperands lifter0 jz_instr [0] (args_push_back (Argument 0) s0) = Inr s"
    by (simp add: LiftOperand_def o operand_def LiftBranchDisplacement_def t Let_def)
  then obtain s1 where
    s1: "LiftOperands lifter0 jz_instr [0] (args_push_back (Argument 0) s0) = Inr s1"
    by blast
  from LiftOperands_eq [OF s1] have "module_M s1 = module_M state0"
    using assms by (auto simp: args_push_back_def)
  with s1 show ?thesis
    by (simp add: LiftGeneric_def o(1) Let_def state0_def)
qed

lemma jz_LiftIntoBlock: "\<exists>b s. LiftIntoBlock [] lifter0 jz_instr state0 = Inr (b, s)"
proof -
  from PCRegName_64 [of jz_instr] have
    p: "\<And>s. \<exists>lg. PCRegName jz_instr s = Inr (''RIP'', s\<lparr>glog := glog s @ lg\<rparr>)"
    by (simp add: jz_instr_def jmp_instr_def nop_instr_def)
  from p [of state0] obtain lg where
    "PCRegName jz_instr state0 = Inr (''RIP'', state0\<lparr>glog := glog state0 @ lg\<rparr>)"
    by blast
  from LiftPC_eq [OF this] obtain s1 where
    s1: "LiftPC jz_instr state0 = Inr s1" and m1: "module_M s1 = module_M state0"
    by simp
  from jz_LiftGeneric [OF m1] obtain s2 where
    s2: "LiftGeneric [] lifter0 jz_instr s1 = Inr s2" by blast
  from p [of s2] obtain lg2 where
    "PCRegName jz_instr s2 = Inr (''RIP'', s2\<lparr>glog := glog s2 @ lg2\<rparr>)" by blast
  from LiftConditionalBranch_eq [OF jz_IsBranch this, of lifter0] obtain s3 where
    s3: "LiftConditionalBranch lifter0 jz_instr s2 = Inr s3" by simp
  show ?thesis
    using IsBranch_exclusive [OF jz_IsBranch] jz_IsBranch s1 s2 s3
    by (auto simp: LiftIntoBlock_def LiftPC_Generic_def)
qed

lemma jmp_reg_lifts_pc_first: "lifts_pc_first jmp_reg_instr"
  by (simp add: lifts_pc_first_def jmp_reg_instr_def nop_instr_def operand_def IsError_def
      IsDirectJump_def IsIndirectJump_def)

lemma jmp_reg_PCRegName:
  "\<forall>s. \<exists>lg. PCRegName jmp_reg_instr s = Inr (''RIP'', s\<lparr>glog := glog s @ lg\<rparr>)"
  by (rule PCRegName_64) (simp add: jmp_reg_instr_def nop_instr_def)

lemma hlt_PCRegName:
  "\<forall>s. \<exists>lg. PCRegName hlt_instr s = Inr (''RIP'', s\<lparr>glog := glog s @ lg\<rparr>)"
  by (rule PCRegName_64) (simp add: hlt_instr_def nop_instr_def)

lemma jmp_reg_LiftPC:
  "LiftPC jmp_reg_instr state0 =
     Inr (state0\<lparr>insts_B := [Load (VarInFunction ''RIP_write''),
        Store (ConstantInt 64 0x1002 False) (Load (VarInFunction ''RIP_write''))]\<rparr>)"
  by (simp add: LiftPC_def PCRegName_def jmp_reg_instr_def nop_instr_def state0_def
      ir_Create_def NextPC_def)

lemma jmp_reg_LiftGeneric:
  "LiftGeneric [] lifter0 jmp_reg_instr
     (state0\<lparr>insts_B := [Load (VarInFunction ''RIP_write''),
        Store (ConstantInt 64 0x1002 False) (Load (VarInFunction ''RIP_write''))]\<rparr>) =
   Inr (state0\<lparr>insts_B := [Load (VarInFunction ''RIP_write''),
        Store (ConstantInt 64 0x1002 False) (Load (VarInFunction ''RIP_write'')),
        Load (VarInFunction ''RAX_read''),
        AlignedLoad 64 (Load (VarInFunction ''RAX_read''))],
      args := [Argument 0, AlignedLoad 64 (Load (VarInFunction ''RAX_read''))],
      glog := [(WARNING, ''Missing instruction semantics for '')]\<rparr>)"
  by (simp add: LiftGeneric_def LiftOperand_def LiftRegister_def jmp_reg_instr_def
      nop_instr_def state0_def operand_def ir_Create_def args_push_back_def LOG_def
      IsVectorReg_def kVectorRegAlign_def Let_def)

lemma hlt_IsError: "IsError hlt_instr"
  by (simp add: hlt_instr_def IsError_def)

lemma pop_hyps:
  "iclass pop_instr = XED_ICLASS_POP"
  "xed_get_largest_enclosing_register (xed_decoded_inst_get_base_reg pop_instr 0) = XED_REG_RSP"
  by (simp_all add: pop_instr_def nop_instr_def)

lemma pop_LiftMemory_A:
  "LiftMemory_A pop_instr 0 state0 =
     (Add (Add (Add (Load (Load (VarInFunction ''RSP_read''))) (ConstantInt 64 8 False))
               (Mul (ConstantInt 64 0 False) (ConstantInt 64 1 True)))
          (SExt (ConstantInt 32 16 True) 64),
      state0\<lparr>insts_B :=
        [Load (VarInFunction ''RSP_read''),
         Load (Load (VarInFunction ''RSP_read'')),
         Add (Load (Load (VarInFunction ''RSP_read''))) (ConstantInt 64 8 False),
         SExt (ConstantInt 32 16 True) 64,
         Mul (ConstantInt 64 0 False) (ConstantInt 64 1 True),
         Add (Add (Load (Load (VarInFunction ''RSP_read''))) (ConstantInt 64 8 False))
             (Mul (ConstantInt 64 0 False) (ConstantInt 64 1 True)),
         Add (Add (Add (Load (Load (VarInFunction ''RSP_read''))) (ConstantInt 64 8 False))
                  (Mul (ConstantInt 64 0 False) (ConstantInt 64 1 True)))
             (SExt (ConstantInt 32 16 True) 64)]\<rparr>)"
  by (simp add: LiftMemory_A_def LiftMemory_sum_def RegToValue_def ir_Create_def Let_def
      pop_instr_def nop_instr_def state0_def)

lemma add_gs_LiftMemory_A:
  "LiftMemory_A add_gs_instr 0 state0 =
     (Add (Add (Load (Load (VarInFunction ''RAX_read'')))
               (Mul (ConstantInt 64 0 False) (ConstantInt 64 1 True)))
          (SExt (ConstantInt 32 16 True) 64),
      state0\<lparr>insts_B :=
        [Load (VarInFunction ''RAX_read''),
         Load (Load (VarInFunction ''RAX_read'')),
         SExt (ConstantInt 32 16 True) 64,
         Mul (ConstantInt 64 0 False) (ConstantInt 64 1 True),
         Add (Load (Load (VarInFunction ''RAX_read'')))
             (Mul (ConstantInt 64 0 False) (ConstantInt 64 1 True)),
         Add (Add (Load (Load (VarInFunction ''RAX_read'')))
                  (Mul (ConstantInt 64 0 False) (ConstantInt 64 1 True)))
             (SExt (ConstantInt 32 16 True) 64)]\<rparr>)"
  by (simp add: LiftMemory_A_def LiftMemory_sum_def RegToValue_def ir_Create_def Let_def
      add_gs_instr_def nop_instr_def state0_def)

lemma add_gs_LiftOperands:
  "\<exists>s. LiftOperands lifter0 add_gs_instr [0, 1] (args_push_back (Argument 0) state0) = Inr s"
proof -
  have o: "xed_inst_operand add_gs_instr 0 =
      operand XED_OPERAND_MEM0 XED_OPVIS_EXPLICIT True True"
    "xed_inst_operand add_gs_instr (Suc 0) =
      operand XED_OPERAND_REG0 XED_OPVIS_EXPLICIT True True"
    by (simp_all add: add_gs_instr_def nop_instr_def)
  show ?thesis
    by (simp add: LiftOperand_def o operand_def Let_def)
qed

lemma add_gs_LiftGeneric:
  "\<exists>s. LiftGeneric [] lifter0 add_gs_instr state0 = Inr s"
proof -
  have n: "[0..<xed_decoded_inst_noperands add_gs_instr] = [0, 1]"
    by (simp add: add_gs_instr_def nop_instr_def upt_conv_Cons)
  from add_gs_LiftOperands obtain s1 where
    "LiftOperands lifter0 add_gs_instr [0, 1] (args_push_back (Argument 0) state0) = Inr s1"
    by blast
  moreover from LiftOperands_eq [OF this] have "module_M s1 = module_M state0"
    by (auto simp: args_push_back_def)
  ultimately show ?thesis
    by (simp add: LiftGeneric_def n Let_def state0_def)
qed

lemma add_gs_visible:
  "visible_operands add_gs_instr =
     [operand XED_OPERAND_MEM0 XED_OPVIS_EXPLICIT True True,
      operand XED_OPERAND_REG0 XED_OPVIS_EXPLICIT True True]"
  by (simp add: visible_operands_def add_gs_instr_def nop_instr_def upt_conv_Cons
      is_visible_def operand_def)

lemma add_gs_spec_args:
  "spec_operand_args lifter0 add_gs_instr
     (operand XED_OPERAND_MEM0 XED_OPVIS_EXPLICIT True True) =
        [Call (Function ''__mcsema_compute_address'')
           [StatePointer,
            Add (Add (Load (Load (VarInFunction ''RAX_read'')))
                     (Mul (ConstantInt 64 0 False) (ConstantInt 64 1 True)))
                (SExt (ConstantInt 32 16 True) 64),
            ConstantInt 32 256 True],
         Call (Function ''__mcsema_compute_address'')
           [StatePointer,
            Add (Add (Load (Load (VarInFunction ''RAX_read'')))
                     (Mul (ConstantInt 64 0 False) (ConstantInt 64 1 True)))
                (SExt (ConstantInt 32 16 True) 64),
            ConstantInt 32 256 True]]"
  "spec_operand_args lifter0 add_gs_instr
     (operand XED_OPERAND_REG0 XED_OPVIS_EXPLICIT True True) =
        [Load (VarInFunction ''EAX_write''),
         AlignedLoad 64 (Load (VarInFunction ''EAX_read''))]"
  by (simp_all add: spec_operand_args_def operand_def is_memory_operand_def
        is_register_operand_def spec_final_address_def spec_address_def spec_base_value_def
        spec_register_value_def spec_write_handle_def spec_read_value_def AddressSpace_def
        IsVectorReg_def add_gs_instr_def nop_instr_def lifter0_def Let_def)

section \<open>The claims\<close>

subsection \<open>C1: the result of LiftIntoBlock\<close>

text \<open>
  Claim C1. Whenever \<open>LiftIntoBlock\<close> returns, it returns true exactly when the
  instruction matches none of the classification predicates; on an instruction that
  matches none it returns true, with the state the generic lifting pass has left, as soon
  as that pass completes. On a direct jump it always returns false, and all it does is to
  end the block with one terminating transfer to the block resolved for the target
  address of the jump.
\<close>

theorem C1_LiftIntoBlock_result:
  "(\<forall>b s. LiftIntoBlock FLAGS_os lifter I st = Inr (b, s) \<longrightarrow> (b \<longleftrightarrow> matches_no_predicate I))
   \<and> (\<forall>s. matches_no_predicate I \<and> LiftGeneric FLAGS_os lifter I st = Inr s \<longrightarrow>
          LiftIntoBlock FLAGS_os lifter I st = Inr (True, s))
   \<and> (IsDirectJump I \<longrightarrow>
        LiftIntoBlock FLAGS_os lifter I st =
          Inr (False, st\<lparr>insts_B := insts_B st @
            [TerminatingTailCall (GetLiftedBlockForPC lifter
               (instr_address I + instr_size I +
                scast (xed_decoded_inst_get_branch_displacement I)))]\<rparr>))"
proof -
  have a: "\<forall>b s. LiftIntoBlock FLAGS_os lifter I st = Inr (b, s) \<longrightarrow>
             (b \<longleftrightarrow> matches_no_predicate I)"
  proof (intro allI impI)
    fix b s
    assume r: "LiftIntoBlock FLAGS_os lifter I st = Inr (b, s)"
    show "b \<longleftrightarrow> matches_no_predicate I"
    proof (cases "matches_no_predicate I")
      case True
      with r show ?thesis by (auto simp: LiftIntoBlock_none split: sum.splits)
    next
      case False
      with r LiftIntoBlock_some show ?thesis by blast
    qed
  qed
  have b: "\<forall>s. matches_no_predicate I \<and> LiftGeneric FLAGS_os lifter I st = Inr s \<longrightarrow>
          LiftIntoBlock FLAGS_os lifter I st = Inr (True, s)"
    by (simp add: LiftIntoBlock_none)
  have d: "IsDirectJump I \<longrightarrow>
        LiftIntoBlock FLAGS_os lifter I st =
          Inr (False, st\<lparr>insts_B := insts_B st @
            [TerminatingTailCall (GetLiftedBlockForPC lifter
               (instr_address I + instr_size I +
                scast (xed_decoded_inst_get_branch_displacement I)))]\<rparr>)"
    by (simp add: LiftIntoBlock_def IsDirectJump_not_IsError TargetPC_Inr
        AddTerminatingTailCall_B_def AddTerminatingTailCall_def)
  from a b d show ?thesis by blast
qed

theorem C1_LiftIntoBlock_result_witness:
  "matches_no_predicate nop_instr
   \<and> LiftGeneric [] lifter0 nop_instr state0 =
       Inr (state0\<lparr>args := [Argument 0],
              glog := [(WARNING, ''Missing instruction semantics for '')]\<rparr>)
   \<and> LiftIntoBlock [] lifter0 nop_instr state0 =
       Inr (True, state0\<lparr>args := [Argument 0],
                    glog := [(WARNING, ''Missing instruction semantics for '')]\<rparr>)
   \<and> IsDirectJump jmp_instr
   \<and> \<not> matches_no_predicate jmp_instr
   \<and> LiftIntoBlock [] lifter0 jmp_instr state0 =
       Inr (False, state0\<lparr>insts_B := [TerminatingTailCall (Function ''block_0xffd'')]\<rparr>)"
proof -
  note t1 = C1_LiftIntoBlock_result [of "[]" lifter0 nop_instr state0]
  note t2 = C1_LiftIntoBlock_result [of "[]" lifter0 jmp_instr state0]
  have r1: "LiftIntoBlock [] lifter0 nop_instr state0 =
       Inr (True, state0\<lparr>args := [Argument 0],
                    glog := [(WARNING, ''Missing instruction semantics for '')]\<rparr>)"
    using t1 nop_matches_none nop_LiftGeneric by blast
  have "LiftIntoBlock [] lifter0 jmp_instr state0 =
          Inr (False, state0\<lparr>insts_B := insts_B state0 @
            [TerminatingTailCall (GetLiftedBlockForPC lifter0
               (instr_address jmp_instr + instr_size jmp_instr +
                scast (xed_decoded_inst_get_branch_displacement jmp_instr)))]\<rparr>)"
    using t2 jmp_IsDirectJump by blast
  then have r2: "LiftIntoBlock [] lifter0 jmp_instr state0 =
       Inr (False, state0\<lparr>insts_B := [TerminatingTailCall (Function ''block_0xffd'')]\<rparr>)"
    by (simp add: jmp_instr_def nop_instr_def lifter0_def state0_def)
  have r3: "\<not> matches_no_predicate jmp_instr"
    using t2 r2 by blast
  from nop_matches_none nop_LiftGeneric r1 jmp_IsDirectJump r3 r2
  show ?thesis by blast
qed

subsection \<open>C2: program counter, generic pass, transfer\<close>

text \<open>
  Claim C2, as amended. For every instruction that \<open>LiftIntoBlock\<close> treats as an indirect
  jump, a direct or indirect call, a return, a branch, a system call or return, or an
  interrupt call or return, \<open>LiftIntoBlock\<close> first stores the next program counter through
  the write slot of the program counter, then runs the generic lifting pass, and only
  then ends the block with the terminating control transfer; when the generic pass ends
  with a fatal error, so does \<open>LiftIntoBlock\<close>. For an error instruction and for a direct
  jump it does neither of the first two steps: it only ends the block. Here \<open>name\<close> is
  the name that \<open>PCRegName\<close> returns for the instruction; by \<open>PCRegName_eq\<close> every
  instruction has one.
\<close>

theorem C2_store_pc_generic_transfer:
  fixes I :: Instr and lifter :: Lifter and st :: lift_state and name :: string
  defines "store_pc \<equiv>
     [Load (VarInFunction (name @ ''_write'')),
      Store (ConstantInt (xed_decoded_inst_get_machine_mode_bits I) (NextPC I) False)
        (Load (VarInFunction (name @ ''_write'')))]"
  assumes "\<forall>s. \<exists>lg. PCRegName I s = Inr (name, s\<lparr>glog := glog s @ lg\<rparr>)"
  shows "(lifts_pc_first I \<longrightarrow>
       (\<exists>s1. LiftPC I st = Inr s1 \<and> insts_B s1 = insts_B st @ store_pc \<and> args s1 = args st \<and>
          (case LiftGeneric FLAGS_os lifter I s1 of
             Inl e \<Rightarrow> LiftIntoBlock FLAGS_os lifter I st = Inl e
           | Inr s2 \<Rightarrow>
               (\<exists>s3 gen fin. LiftIntoBlock FLAGS_os lifter I st = Inr (False, s3)
                  \<and> insts_B s2 = insts_B st @ store_pc @ gen
                  \<and> insts_B s3 = insts_B st @ store_pc @ gen @ fin
                  \<and> fin \<noteq> [] \<and> filter is_terminator fin = [last fin]))))
    \<and> (IsError I \<longrightarrow>
         LiftIntoBlock FLAGS_os lifter I st =
           Inr (False, st\<lparr>insts_B := insts_B st @ [TerminatingTailCall (error lifter)]\<rparr>))
    \<and> (\<not> IsError I \<and> IsDirectJump I \<longrightarrow>
         LiftIntoBlock FLAGS_os lifter I st =
           Inr (False, st\<lparr>insts_B := insts_B st @
             [TerminatingTailCall (GetLiftedBlockForPC lifter
                (instr_address I + instr_size I +
                 scast (xed_decoded_inst_get_branch_displacement I)))]\<rparr>))"
proof -
  have pc: "\<And>s. \<exists>lg. PCRegName I s = Inr (name, s\<lparr>glog := glog s @ lg\<rparr>)"
    using assms(2) by blast
  have a: "lifts_pc_first I \<longrightarrow>
       (\<exists>s1. LiftPC I st = Inr s1 \<and> insts_B s1 = insts_B st @ store_pc \<and> args s1 = args st \<and>
          (case LiftGeneric FLAGS_os lifter I s1 of
             Inl e \<Rightarrow> LiftIntoBlock FLAGS_os lifter I st = Inl e
           | Inr s2 \<Rightarrow>
               (\<exists>s3 gen fin. LiftIntoBlock FLAGS_os lifter I st = Inr (False, s3)
                  \<and> insts_B s2 = insts_B st @ store_pc @ gen
                  \<and> insts_B s3 = insts_B st @ store_pc @ gen @ fin
                  \<and> fin \<noteq> [] \<and> filter is_terminator fin = [last fin])))"
  proof
    assume l: "lifts_pc_first I"
    from pc [of st] obtain lg1 where
      p: "PCRegName I st = Inr (name, st\<lparr>glog := glog st @ lg1\<rparr>)" by blast
    define s1 where "s1 = st\<lparr>insts_B := insts_B st @ store_pc, glog := glog st @ lg1\<rparr>"
    have lp: "LiftPC I st = Inr s1"
      by (simp add: LiftPC_eq [OF p] s1_def store_pc_def)
    have i1: "insts_B s1 = insts_B st @ store_pc" and a1: "args s1 = args st"
      by (simp_all add: s1_def)
    from lifts_pc_first_cases [OF l, of FLAGS_os lifter st] obtain f lg where
      r: "LiftIntoBlock FLAGS_os lifter I st =
       (case LiftGeneric FLAGS_os lifter I s1 of
          Inl e \<Rightarrow> Inl e
        | Inr s2 \<Rightarrow>
            (if IsBranch I
             then (case LiftConditionalBranch lifter I s2 of
                     Inl e \<Rightarrow> Inl e | Inr s3 \<Rightarrow> Inr (False, s3))
             else Inr (False, s2\<lparr>insts_B := insts_B s2 @ [TerminatingTailCall f],
                                 glog := glog s2 @ lg\<rparr>)))"
      by (auto simp: LiftPC_Generic_def lp)
    have "case LiftGeneric FLAGS_os lifter I s1 of
             Inl e \<Rightarrow> LiftIntoBlock FLAGS_os lifter I st = Inl e
           | Inr s2 \<Rightarrow>
               (\<exists>s3 gen fin. LiftIntoBlock FLAGS_os lifter I st = Inr (False, s3)
                  \<and> insts_B s2 = insts_B st @ store_pc @ gen
                  \<and> insts_B s3 = insts_B st @ store_pc @ gen @ fin
                  \<and> fin \<noteq> [] \<and> filter is_terminator fin = [last fin])"
    proof (cases "LiftGeneric FLAGS_os lifter I s1")
      case (Inl e)
      with r show ?thesis by simp
    next
      case (Inr s2)
      from LiftGeneric_eq [OF Inr] obtain gen where
        i2: "insts_B s2 = insts_B st @ store_pc @ gen"
        by (auto simp: i1)
      show ?thesis
      proof (cases "IsBranch I")
        case True
        from pc [of s2] obtain lg2 where
          p2: "PCRegName I s2 = Inr (name, s2\<lparr>glog := glog s2 @ lg2\<rparr>)" by blast
        note cb = LiftConditionalBranch_eq [OF True p2, of lifter]
        let ?dest = "Load (Load (VarInFunction (name @ ''_read'')))"
        let ?cond = "ICmpEQ (ConstantInt (xed_decoded_inst_get_machine_mode_bits I)
                         (instr_address I + instr_size I +
                          scast (xed_decoded_inst_get_branch_displacement I)) False) ?dest"
        let ?fin = "[Load (VarInFunction (name @ ''_read'')), ?dest, ?cond,
               CondBr ?cond (length (blocks_F s2)) (Suc (length (blocks_F s2)))]"
        from cb obtain s3 where c3: "LiftConditionalBranch lifter I s2 = Inr s3"
          and i3: "insts_B s3 = insts_B s2 @ ?fin"
          by simp
        have "LiftIntoBlock FLAGS_os lifter I st = Inr (False, s3)"
          using r Inr True c3 by simp
        moreover have "insts_B s3 = insts_B st @ store_pc @ gen @ ?fin"
          using i3 i2 by simp
        moreover have "?fin \<noteq> []" "filter is_terminator ?fin = [last ?fin]" by simp_all
        ultimately have "\<exists>s3 gen fin. LiftIntoBlock FLAGS_os lifter I st = Inr (False, s3)
                  \<and> insts_B s2 = insts_B st @ store_pc @ gen
                  \<and> insts_B s3 = insts_B st @ store_pc @ gen @ fin
                  \<and> fin \<noteq> [] \<and> filter is_terminator fin = [last fin]"
          using i2 by blast
        with Inr show ?thesis by simp
      next
        case False
        let ?s3 = "s2\<lparr>insts_B := insts_B s2 @ [TerminatingTailCall f],
                                 glog := glog s2 @ lg\<rparr>"
        have "LiftIntoBlock FLAGS_os lifter I st = Inr (False, ?s3)"
          using r Inr False by simp
        moreover have "insts_B ?s3 = insts_B st @ store_pc @ gen @ [TerminatingTailCall f]"
          using i2 by simp
        moreover have "[TerminatingTailCall f] \<noteq> []"
          "filter is_terminator [TerminatingTailCall f] = [last [TerminatingTailCall f]]"
          by simp_all
        ultimately have "\<exists>s3 gen fin. LiftIntoBlock FLAGS_os lifter I st = Inr (False, s3)
                  \<and> insts_B s2 = insts_B st @ store_pc @ gen
                  \<and> insts_B s3 = insts_B st @ store_pc @ gen @ fin
                  \<and> fin \<noteq> [] \<and> filter is_terminator fin = [last fin]"
          using i2 by blast
        with Inr show ?thesis by simp
      qed
    qed
    with lp i1 a1 show "\<exists>s1. LiftPC I st = Inr s1 \<and> insts_B s1 = insts_B st @ store_pc
        \<and> args s1 = args st \<and>
          (case LiftGeneric FLAGS_os lifter I s1 of
             Inl e \<Rightarrow> LiftIntoBlock FLAGS_os lifter I st = Inl e
           | Inr s2 \<Rightarrow>
               (\<exists>s3 gen fin. LiftIntoBlock FLAGS_os lifter I st = Inr (False, s3)
                  \<and> insts_B s2 = insts_B st @ store_pc @ gen
                  \<and> insts_B s3 = insts_B st @ store_pc @ gen @ fin
                  \<and> fin \<noteq> [] \<and> filter is_terminator fin = [last fin]))"
      by blast
  qed
  have b: "IsError I \<longrightarrow>
         LiftIntoBlock FLAGS_os lifter I st =
           Inr (False, st\<lparr>insts_B := insts_B st @ [TerminatingTailCall (error lifter)]\<rparr>)"
    by (simp add: LiftIntoBlock_def AddTerminatingTailCall_B_def AddTerminatingTailCall_def)
  have c: "\<not> IsError I \<and> IsDirectJump I \<longrightarrow>
         LiftIntoBlock FLAGS_os lifter I st =
           Inr (False, st\<lparr>insts_B := insts_B st @
             [TerminatingTailCall (GetLiftedBlockForPC lifter
                (instr_address I + instr_size I +
                 scast (xed_decoded_inst_get_branch_displacement I)))]\<rparr>)"
    by (simp add: LiftIntoBlock_def TargetPC_Inr AddTerminatingTailCall_B_def
        AddTerminatingTailCall_def)
  from a b c show ?thesis by blast
qed

theorem C2_store_pc_generic_transfer_witness:
  "lifts_pc_first jmp_reg_instr
   \<and> (\<exists>s3 fin. LiftIntoBlock [] lifter0 jmp_reg_instr state0 = Inr (False, s3)
         \<and> insts_B s3 =
             [Load (VarInFunction ''RIP_write''),
              Store (ConstantInt 64 0x1002 False) (Load (VarInFunction ''RIP_write'')),
              Load (VarInFunction ''RAX_read''),
              AlignedLoad 64 (Load (VarInFunction ''RAX_read''))] @ fin
         \<and> fin \<noteq> [] \<and> filter is_terminator fin = [last fin])
   \<and> IsError hlt_instr
   \<and> LiftIntoBlock [] lifter0 hlt_instr state0 =
       Inr (False, state0\<lparr>insts_B := [TerminatingTailCall (Function ''__mcsema_error'')]\<rparr>)
   \<and> \<not> IsError jmp_instr \<and> IsDirectJump jmp_instr
   \<and> LiftIntoBlock [] lifter0 jmp_instr state0 =
       Inr (False, state0\<lparr>insts_B := [TerminatingTailCall (Function ''block_0xffd'')]\<rparr>)"
proof -
  note t = C2_store_pc_generic_transfer [where I = jmp_reg_instr and name = "''RIP''"
      and FLAGS_os = "[]" and lifter = lifter0 and st = state0, OF jmp_reg_PCRegName]
  note h = C2_store_pc_generic_transfer [where I = hlt_instr and name = "''RIP''"
      and FLAGS_os = "[]" and lifter = lifter0 and st = state0, OF hlt_PCRegName]
  note j = C2_store_pc_generic_transfer [where I = jmp_instr and name = "''RIP''"
      and FLAGS_os = "[]" and lifter = lifter0 and st = state0, OF jmp_PCRegName]
  from t jmp_reg_lifts_pc_first obtain s1 where
    "LiftPC jmp_reg_instr state0 = Inr s1"
    and c: "case LiftGeneric [] lifter0 jmp_reg_instr s1 of
             Inl e \<Rightarrow> LiftIntoBlock [] lifter0 jmp_reg_instr state0 = Inl e
           | Inr s2 \<Rightarrow>
               (\<exists>s3 gen fin. LiftIntoBlock [] lifter0 jmp_reg_instr state0 = Inr (False, s3)
                  \<and> insts_B s2 = insts_B state0 @
                      [Load (VarInFunction (''RIP'' @ ''_write'')),
                       Store (ConstantInt
                          (xed_decoded_inst_get_machine_mode_bits jmp_reg_instr)
                          (NextPC jmp_reg_instr) False)
                         (Load (VarInFunction (''RIP'' @ ''_write'')))] @ gen
                  \<and> insts_B s3 = insts_B state0 @
                      [Load (VarInFunction (''RIP'' @ ''_write'')),
                       Store (ConstantInt
                          (xed_decoded_inst_get_machine_mode_bits jmp_reg_instr)
                          (NextPC jmp_reg_instr) False)
                         (Load (VarInFunction (''RIP'' @ ''_write'')))] @ gen @ fin
                  \<and> fin \<noteq> [] \<and> filter is_terminator fin = [last fin])"
    by blast
  then have s1: "s1 = state0\<lparr>insts_B := [Load (VarInFunction ''RIP_write''),
        Store (ConstantInt 64 0x1002 False) (Load (VarInFunction ''RIP_write''))]\<rparr>"
    by (simp add: jmp_reg_LiftPC)
  from c have "\<exists>s3 fin. LiftIntoBlock [] lifter0 jmp_reg_instr state0 = Inr (False, s3)
         \<and> insts_B s3 =
             [Load (VarInFunction ''RIP_write''),
              Store (ConstantInt 64 0x1002 False) (Load (VarInFunction ''RIP_write'')),
              Load (VarInFunction ''RAX_read''),
              AlignedLoad 64 (Load (VarInFunction ''RAX_read''))] @ fin
         \<and> fin \<noteq> [] \<and> filter is_terminator fin = [last fin]"
  proof -
    have w: "xed_decoded_inst_get_machine_mode_bits jmp_reg_instr = 64"
      "NextPC jmp_reg_instr = 0x1002" "insts_B state0 = []"
      by (simp_all add: jmp_reg_instr_def nop_instr_def NextPC_def state0_def)
    from c show ?thesis
      unfolding s1 jmp_reg_LiftGeneric by (simp add: w)
  qed
  moreover have "LiftIntoBlock [] lifter0 hlt_instr state0 =
       Inr (False, state0\<lparr>insts_B := [TerminatingTailCall (Function ''__mcsema_error'')]\<rparr>)"
    using h hlt_IsError by (simp add: lifter0_def state0_def)
  moreover have "LiftIntoBlock [] lifter0 jmp_instr state0 =
       Inr (False, state0\<lparr>insts_B := [TerminatingTailCall (Function ''block_0xffd'')]\<rparr>)"
    using j jmp_not_IsError jmp_IsDirectJump
    by (simp add: jmp_instr_def nop_instr_def lifter0_def state0_def)
  ultimately show ?thesis
    using jmp_reg_lifts_pc_first hlt_IsError jmp_not_IsError jmp_IsDirectJump by blast
qed

text \<open>
  The claim as it was stated fails for the error category: on \<open>HLT\<close> the block receives
  the terminating transfer and nothing else, and the argument list stays empty.
\<close>

theorem C2_counterexample:
  "IsError hlt_instr
   \<and> LiftIntoBlock [] lifter0 hlt_instr state0 =
       Inr (False, state0\<lparr>insts_B := [TerminatingTailCall (Function ''__mcsema_error'')]\<rparr>)
   \<and> LiftPC hlt_instr state0 =
       Inr (state0\<lparr>insts_B := [Load (VarInFunction ''RIP_write''),
          Store (ConstantInt 64 0x1002 False) (Load (VarInFunction ''RIP_write''))]\<rparr>)"
  by (simp add: hlt_instr_def nop_instr_def IsError_def LiftIntoBlock_def lifter0_def
      state0_def AddTerminatingTailCall_B_def AddTerminatingTailCall_def LiftPC_def
      PCRegName_def ir_Create_def NextPC_def)

subsection \<open>C3: the target of a branch\<close>

text \<open>
  Claim C3. For an instruction at address \<open>A\<close> with size \<open>S\<close> that is a direct jump, a
  direct function call or a branch, with signed displacement \<open>D\<close>, \<open>TargetPC\<close> returns
  \<open>A + S + D\<close>, a pointer-sized unsigned value: the sum is taken modulo \<open>2^64\<close>. On any
  other instruction \<open>TargetPC\<close> ends the process on its \<open>CHECK\<close>.
\<close>

theorem C3_TargetPC:
  "(IsDirectJump I \<or> IsDirectFunctionCall I \<or> IsBranch I \<longrightarrow>
      TargetPC I = Inr (instr_address I + instr_size I +
                        scast (xed_decoded_inst_get_branch_displacement I))
      \<and> uint (instr_address I + instr_size I +
               scast (xed_decoded_inst_get_branch_displacement I) :: 64 word) =
          (uint (instr_address I) + uint (instr_size I) +
           sint (xed_decoded_inst_get_branch_displacement I)) mod 2 ^ 64)
   \<and> (\<not> (IsDirectJump I \<or> IsDirectFunctionCall I \<or> IsBranch I) \<longrightarrow>
      TargetPC I = Inl (CHECK_failed
        ''Can only get target PC of a direct jump, branch, or function call.''))"
  by (simp add: TargetPC_def NextPC_def Let_def uint_target)

theorem C3_TargetPC_witness:
  "IsDirectJump jmp_instr
   \<and> instr_address jmp_instr = 0x1000 \<and> instr_size jmp_instr = 2
   \<and> sint (xed_decoded_inst_get_branch_displacement jmp_instr) = - 5
   \<and> TargetPC jmp_instr = Inr 0x0FFD
   \<and> \<not> (IsDirectJump nop_instr \<or> IsDirectFunctionCall nop_instr \<or> IsBranch nop_instr)
   \<and> TargetPC nop_instr = Inl (CHECK_failed
        ''Can only get target PC of a direct jump, branch, or function call.'')"
proof -
  have n: "\<not> (IsDirectJump nop_instr \<or> IsDirectFunctionCall nop_instr \<or> IsBranch nop_instr)"
    using nop_matches_none by (simp add: matches_no_predicate_def)
  have "TargetPC jmp_instr = Inr (instr_address jmp_instr + instr_size jmp_instr +
                        scast (xed_decoded_inst_get_branch_displacement jmp_instr))"
    using C3_TargetPC [of jmp_instr] jmp_IsDirectJump by blast
  then have "TargetPC jmp_instr = Inr 0x0FFD"
    by (simp add: jmp_instr_def nop_instr_def)
  moreover have "TargetPC nop_instr = Inl (CHECK_failed
        ''Can only get target PC of a direct jump, branch, or function call.'')"
    using C3_TargetPC [of nop_instr] n by blast
  moreover have "instr_address jmp_instr = 0x1000 \<and> instr_size jmp_instr = 2
   \<and> sint (xed_decoded_inst_get_branch_displacement jmp_instr) = - 5"
    by (simp add: jmp_instr_def nop_instr_def)
  ultimately show ?thesis using n jmp_IsDirectJump by blast
qed

subsection \<open>C4: the order of the argument list\<close>

text \<open>
  Claim C4. When the generic lifting pass completes, it has appended to the argument list
  the machine-state argument and then, for each visible operand in decode order, that
  operand's contribution. Each operand lifter appends exactly that contribution: a
  register that is written and read contributes its write handle and then its read value;
  a memory operand contributes one and the same address once for each of its roles,
  first for the write, then for the read.
\<close>

theorem C4_argument_list_order:
  assumes "LiftGeneric FLAGS_os lifter I st = Inr st'"
  shows "args st' = args st @ Argument 0 #
           concat (map (spec_operand_args lifter I) (visible_operands I))
    \<and> (args st = [] \<longrightarrow> hd (args st') = Argument 0)
    \<and> (\<forall>xedo n s. is_memory_operand xedo \<longrightarrow>
          args (LiftMemory lifter I xedo n s) = args s @ spec_operand_args lifter I xedo
          \<and> spec_operand_args lifter I xedo =
              replicate ((if xed_operand_written xedo then 1 else 0) +
                         (if xed_operand_read xedo then 1 else 0))
                (spec_final_address lifter I xedo))
    \<and> (\<forall>xedo s. is_register_operand xedo \<longrightarrow>
          args (LiftRegister I xedo s) = args s @ spec_operand_args lifter I xedo
          \<and> (xed_operand_written xedo \<and> xed_operand_read xedo \<longrightarrow>
               spec_operand_args lifter I xedo =
                 [spec_write_handle (xed_decoded_inst_get_reg I (xed_operand_name xedo)),
                  spec_read_value (xed_decoded_inst_get_reg I (xed_operand_name xedo))]))"
proof -
  from LiftGeneric_eq [OF assms] have a: "args st' = args st @ Argument 0 #
           concat (map (spec_operand_args lifter I) (visible_operands I))"
    by auto
  then have h: "args st = [] \<longrightarrow> hd (args st') = Argument 0" by simp
  have m: "\<forall>xedo n s. is_memory_operand xedo \<longrightarrow>
          args (LiftMemory lifter I xedo n s) = args s @ spec_operand_args lifter I xedo
          \<and> spec_operand_args lifter I xedo =
              replicate ((if xed_operand_written xedo then 1 else 0) +
                         (if xed_operand_read xedo then 1 else 0))
                (spec_final_address lifter I xedo)"
  proof (intro allI impI)
    fix xedo n s
    assume "is_memory_operand xedo"
    then show "args (LiftMemory lifter I xedo n s) = args s @ spec_operand_args lifter I xedo
          \<and> spec_operand_args lifter I xedo =
              replicate ((if xed_operand_written xedo then 1 else 0) +
                         (if xed_operand_read xedo then 1 else 0))
                (spec_final_address lifter I xedo)"
      using LiftMemory_eq [of lifter I xedo n s]
      by (auto simp: spec_operand_args_def)
  qed
  have r: "\<forall>xedo s. is_register_operand xedo \<longrightarrow>
          args (LiftRegister I xedo s) = args s @ spec_operand_args lifter I xedo
          \<and> (xed_operand_written xedo \<and> xed_operand_read xedo \<longrightarrow>
               spec_operand_args lifter I xedo =
                 [spec_write_handle (xed_decoded_inst_get_reg I (xed_operand_name xedo)),
                  spec_read_value (xed_decoded_inst_get_reg I (xed_operand_name xedo))])"
  proof (intro allI impI)
    fix xedo s
    assume reg: "is_register_operand xedo"
    then have nm: "\<not> is_memory_operand xedo"
      by (auto simp: is_register_operand_def is_memory_operand_def)
    from reg nm show "args (LiftRegister I xedo s) = args s @ spec_operand_args lifter I xedo
          \<and> (xed_operand_written xedo \<and> xed_operand_read xedo \<longrightarrow>
               spec_operand_args lifter I xedo =
                 [spec_write_handle (xed_decoded_inst_get_reg I (xed_operand_name xedo)),
                  spec_read_value (xed_decoded_inst_get_reg I (xed_operand_name xedo))])"
      using LiftRegister_eq [of I xedo s]
      by (auto simp: spec_operand_args_def)
  qed
  from a h m r show ?thesis by blast
qed

theorem C4_argument_list_order_witness:
  "(\<exists>s. LiftGeneric [] lifter0 add_gs_instr state0 = Inr s
     \<and> args s =
        [Argument 0,
         Call (Function ''__mcsema_compute_address'')
           [StatePointer,
            Add (Add (Load (Load (VarInFunction ''RAX_read'')))
                     (Mul (ConstantInt 64 0 False) (ConstantInt 64 1 True)))
                (SExt (ConstantInt 32 16 True) 64),
            ConstantInt 32 256 True],
         Call (Function ''__mcsema_compute_address'')
           [StatePointer,
            Add (Add (Load (Load (VarInFunction ''RAX_read'')))
                     (Mul (ConstantInt 64 0 False) (ConstantInt 64 1 True)))
                (SExt (ConstantInt 32 16 True) 64),
            ConstantInt 32 256 True],
         Load (VarInFunction ''EAX_write''),
         AlignedLoad 64 (Load (VarInFunction ''EAX_read''))]
     \<and> hd (args s) = Argument 0)
   \<and> is_memory_operand (operand XED_OPERAND_MEM0 XED_OPVIS_EXPLICIT True True)
   \<and> args (LiftMemory lifter0 add_gs_instr
             (operand XED_OPERAND_MEM0 XED_OPVIS_EXPLICIT True True) 0 state0) =
       replicate 2 (spec_final_address lifter0 add_gs_instr
                      (operand XED_OPERAND_MEM0 XED_OPVIS_EXPLICIT True True))
   \<and> is_register_operand (operand XED_OPERAND_REG0 XED_OPVIS_EXPLICIT True True)
   \<and> args (LiftRegister add_gs_instr
             (operand XED_OPERAND_REG0 XED_OPVIS_EXPLICIT True True) state0) =
       [Load (VarInFunction ''EAX_write''),
        AlignedLoad 64 (Load (VarInFunction ''EAX_read''))]"
proof -
  let ?mem = "operand XED_OPERAND_MEM0 XED_OPVIS_EXPLICIT True True"
  let ?reg = "operand XED_OPERAND_REG0 XED_OPVIS_EXPLICIT True True"
  from add_gs_LiftGeneric obtain s where
    g: "LiftGeneric [] lifter0 add_gs_instr state0 = Inr s" by blast
  note t = C4_argument_list_order [OF g]
  have k: "is_memory_operand ?mem" "is_register_operand ?reg"
    "xed_operand_written ?mem" "xed_operand_read ?mem"
    "xed_operand_written ?reg" "xed_operand_read ?reg" "args state0 = []"
    by (simp_all add: is_memory_operand_def is_register_operand_def operand_def state0_def)
  from t have "args s = args state0 @ Argument 0 #
       concat (map (spec_operand_args lifter0 add_gs_instr) (visible_operands add_gs_instr))"
    by blast
  then have a: "args s =
        [Argument 0,
         Call (Function ''__mcsema_compute_address'')
           [StatePointer,
            Add (Add (Load (Load (VarInFunction ''RAX_read'')))
                     (Mul (ConstantInt 64 0 False) (ConstantInt 64 1 True)))
                (SExt (ConstantInt 32 16 True) 64),
            ConstantInt 32 256 True],
         Call (Function ''__mcsema_compute_address'')
           [StatePointer,
            Add (Add (Load (Load (VarInFunction ''RAX_read'')))
                     (Mul (ConstantInt 64 0 False) (ConstantInt 64 1 True)))
                (SExt (ConstantInt 32 16 True) 64),
            ConstantInt 32 256 True],
         Load (VarInFunction ''EAX_write''),
         AlignedLoad 64 (Load (VarInFunction ''EAX_read''))]"
    by (simp add: add_gs_visible add_gs_spec_args k)
  from t k have h: "hd (args s) = Argument 0" by blast
  from t k(1) have "args (LiftMemory lifter0 add_gs_instr ?mem 0 state0) =
       args state0 @ spec_operand_args lifter0 add_gs_instr ?mem
     \<and> spec_operand_args lifter0 add_gs_instr ?mem =
         replicate ((if xed_operand_written ?mem then 1 else 0) +
                    (if xed_operand_read ?mem then 1 else 0))
           (spec_final_address lifter0 add_gs_instr ?mem)"
    by blast
  then have m: "args (LiftMemory lifter0 add_gs_instr ?mem 0 state0) =
       replicate 2 (spec_final_address lifter0 add_gs_instr ?mem)"
    by (simp add: k numeral_2_eq_2)
  from t k(2) have "args (LiftRegister add_gs_instr ?reg state0) =
       args state0 @ spec_operand_args lifter0 add_gs_instr ?reg"
    by blast
  then have r: "args (LiftRegister add_gs_instr ?reg state0) =
       [Load (VarInFunction ''EAX_write''),
        AlignedLoad 64 (Load (VarInFunction ''EAX_read''))]"
    by (simp add: add_gs_spec_args k)
  from g a h k m r show ?thesis by blast
qed

subsection \<open>C5: conditional branches\<close>

text \<open>
  Claim C5. For every conditional-branch instruction, \<open>LiftConditionalBranch\<close> completes
  and adds exactly two blocks to the routine: \<open>branch_taken\<close>, which ends with the
  successor resolved for \<open>TargetPC\<close>, and \<open>fall_through\<close>, which ends with the successor
  resolved for the next program counter. The block being built ends with a conditional
  transfer on the equality of a constant equal to \<open>TargetPC\<close> with the value loaded from
  the read slot of the program counter; equality selects \<open>branch_taken\<close>. Whenever
  \<open>LiftIntoBlock\<close> returns on such an instruction, it returns false, the two blocks are
  the only ones it has added, and the block ends with that conditional transfer. Here
  \<open>name\<close> is the name that \<open>PCRegName\<close> returns for the instruction; by \<open>PCRegName_eq\<close>
  every instruction has one.
\<close>

theorem C5_conditional_branch:
  fixes I :: Instr and lifter :: Lifter and st :: lift_state and name :: string
  defines "target \<equiv> instr_address I + instr_size I +
                     scast (xed_decoded_inst_get_branch_displacement I)"
  defines "taken \<equiv> \<lparr>block_name = ''branch_taken'',
                      block_insts = [TerminatingTailCall (GetLiftedBlockForPC lifter target)]\<rparr>"
  defines "fall \<equiv> \<lparr>block_name = ''fall_through'',
                     block_insts = [TerminatingTailCall (GetLiftedBlockForPC lifter (NextPC I))]\<rparr>"
  defines "dest \<equiv> Load (Load (VarInFunction (name @ ''_read'')))"
  defines "cond \<equiv> ICmpEQ (ConstantInt (xed_decoded_inst_get_machine_mode_bits I) target False)
                          dest"
  assumes "IsBranch I" and "\<forall>s. \<exists>lg. PCRegName I s = Inr (name, s\<lparr>glog := glog s @ lg\<rparr>)"
  shows "TargetPC I = Inr target
    \<and> (\<exists>st'. LiftConditionalBranch lifter I st = Inr st'
          \<and> blocks_F st' = blocks_F st @ [taken, fall]
          \<and> insts_B st' = insts_B st @
               [Load (VarInFunction (name @ ''_read'')), dest, cond,
                CondBr cond (length (blocks_F st)) (Suc (length (blocks_F st)))])
    \<and> (\<forall>b s'. LiftIntoBlock FLAGS_os lifter I st = Inr (b, s') \<longrightarrow>
          \<not> b \<and> blocks_F s' = blocks_F st @ [taken, fall]
          \<and> (\<exists>pre. insts_B s' = insts_B st @ pre @
               [cond, CondBr cond (length (blocks_F st)) (Suc (length (blocks_F st)))]))"
proof -
  have t: "TargetPC I = Inr target"
    using assms(6) by (simp add: TargetPC_Inr target_def)
  have pc: "\<And>s. \<exists>lg. PCRegName I s = Inr (name, s\<lparr>glog := glog s @ lg\<rparr>)"
    using assms(7) by blast
  have cb: "\<And>s. \<exists>s'. LiftConditionalBranch lifter I s = Inr s'
          \<and> blocks_F s' = blocks_F s @ [taken, fall]
          \<and> insts_B s' = insts_B s @
               [Load (VarInFunction (name @ ''_read'')), dest, cond,
                CondBr cond (length (blocks_F s)) (Suc (length (blocks_F s)))]"
  proof -
    fix s
    from pc [of s] obtain lg where p: "PCRegName I s = Inr (name, s\<lparr>glog := glog s @ lg\<rparr>)"
      by blast
    show "\<exists>s'. LiftConditionalBranch lifter I s = Inr s'
          \<and> blocks_F s' = blocks_F s @ [taken, fall]
          \<and> insts_B s' = insts_B s @
               [Load (VarInFunction (name @ ''_read'')), dest, cond,
                CondBr cond (length (blocks_F s)) (Suc (length (blocks_F s)))]"
      by (simp add: LiftConditionalBranch_eq [OF assms(6) p] taken_def fall_def dest_def
          cond_def target_def NextPC_def)
  qed
  have lib: "\<forall>b s'. LiftIntoBlock FLAGS_os lifter I st = Inr (b, s') \<longrightarrow>
          \<not> b \<and> blocks_F s' = blocks_F st @ [taken, fall]
          \<and> (\<exists>pre. insts_B s' = insts_B st @ pre @
               [cond, CondBr cond (length (blocks_F st)) (Suc (length (blocks_F st)))])"
  proof (intro allI impI)
    fix b s'
    assume r: "LiftIntoBlock FLAGS_os lifter I st = Inr (b, s')"
    from r IsBranch_exclusive [OF assms(6)] obtain s2 where
      g: "LiftPC_Generic FLAGS_os lifter I st = Inr s2"
      and c: "LiftConditionalBranch lifter I s2 = Inr s'" and nb: "\<not> b"
      using assms(6) by (auto simp: LiftIntoBlock_def split: sum.splits)
    from pc [of st] obtain lg1 where
      p: "PCRegName I st = Inr (name, st\<lparr>glog := glog st @ lg1\<rparr>)" by blast
    from LiftPC_Generic_eq [OF g p] obtain xs where
      b2: "blocks_F s2 = blocks_F st" and i2: "insts_B s2 = insts_B st @
             [Load (VarInFunction (name @ ''_write'')),
              Store (ConstantInt (xed_decoded_inst_get_machine_mode_bits I) (NextPC I) False)
                (Load (VarInFunction (name @ ''_write'')))] @ xs"
      by auto
    from cb [of s2] c have
      b3: "blocks_F s' = blocks_F s2 @ [taken, fall]" and
      i3: "insts_B s' = insts_B s2 @
               [Load (VarInFunction (name @ ''_read'')), dest, cond,
                CondBr cond (length (blocks_F s2)) (Suc (length (blocks_F s2)))]"
      by auto
    have "insts_B s' = insts_B st @
        ([Load (VarInFunction (name @ ''_write'')),
          Store (ConstantInt (xed_decoded_inst_get_machine_mode_bits I) (NextPC I) False)
            (Load (VarInFunction (name @ ''_write'')))] @ xs @
         [Load (VarInFunction (name @ ''_read'')), dest]) @
        [cond, CondBr cond (length (blocks_F st)) (Suc (length (blocks_F st)))]"
      by (simp add: i3 i2 b2)
    then have "\<exists>pre. insts_B s' = insts_B st @ pre @
               [cond, CondBr cond (length (blocks_F st)) (Suc (length (blocks_F st)))]"
      by blast
    with nb b3 b2 show "\<not> b \<and> blocks_F s' = blocks_F st @ [taken, fall]
          \<and> (\<exists>pre. insts_B s' = insts_B st @ pre @
               [cond, CondBr cond (length (blocks_F st)) (Suc (length (blocks_F st)))])"
      by simp
  qed
  from t cb [of st] lib show ?thesis by blast
qed

theorem C5_conditional_branch_witness:
  "IsBranch jz_instr
   \<and> PCRegName jz_instr state0 = Inr (''RIP'', state0)
   \<and> TargetPC jz_instr = Inr 0x0FFD
   \<and> (\<exists>st'. LiftConditionalBranch lifter0 jz_instr state0 = Inr st'
        \<and> blocks_F st' =
            [\<lparr>block_name = ''branch_taken'',
              block_insts = [TerminatingTailCall (Function ''block_0xffd'')]\<rparr>,
             \<lparr>block_name = ''fall_through'',
              block_insts = [TerminatingTailCall (Function ''block_other'')]\<rparr>]
        \<and> insts_B st' =
            [Load (VarInFunction ''RIP_read''), Load (Load (VarInFunction ''RIP_read'')),
             ICmpEQ (ConstantInt 64 0x0FFD False) (Load (Load (VarInFunction ''RIP_read''))),
             CondBr (ICmpEQ (ConstantInt 64 0x0FFD False)
                       (Load (Load (VarInFunction ''RIP_read'')))) 0 1])
   \<and> (\<exists>s'. LiftIntoBlock [] lifter0 jz_instr state0 = Inr (False, s')
        \<and> blocks_F s' =
            [\<lparr>block_name = ''branch_taken'',
              block_insts = [TerminatingTailCall (Function ''block_0xffd'')]\<rparr>,
             \<lparr>block_name = ''fall_through'',
              block_insts = [TerminatingTailCall (Function ''block_other'')]\<rparr>]
        \<and> last (insts_B s') =
            CondBr (ICmpEQ (ConstantInt 64 0x0FFD False)
                       (Load (Load (VarInFunction ''RIP_read'')))) 0 1)"
proof -
  note t = C5_conditional_branch [OF jz_IsBranch jz_PCRegName, of lifter0 state0 "[]"]
  have v: "instr_address jz_instr = 0x1000" "instr_size jz_instr = 2"
    "xed_decoded_inst_get_branch_displacement jz_instr = - 5"
    "xed_decoded_inst_get_machine_mode_bits jz_instr = 64"
    "NextPC jz_instr = 0x1002"
    "GetLiftedBlockForPC lifter0 0x0FFD = Function ''block_0xffd''"
    "GetLiftedBlockForPC lifter0 0x1002 = Function ''block_other''"
    "blocks_F state0 = []" "insts_B state0 = []"
    "PCRegName jz_instr state0 = Inr (''RIP'', state0)"
    by (simp_all add: jz_instr_def jmp_instr_def nop_instr_def lifter0_def state0_def
        NextPC_def PCRegName_def)
  from jz_LiftIntoBlock obtain b s' where
    r: "LiftIntoBlock [] lifter0 jz_instr state0 = Inr (b, s')" by blast
  with t have "\<not> b" and bl: "blocks_F s' =
            [\<lparr>block_name = ''branch_taken'',
              block_insts = [TerminatingTailCall (Function ''block_0xffd'')]\<rparr>,
             \<lparr>block_name = ''fall_through'',
              block_insts = [TerminatingTailCall (Function ''block_other'')]\<rparr>]"
    and "\<exists>pre. insts_B s' = pre @
            [ICmpEQ (ConstantInt 64 0x0FFD False) (Load (Load (VarInFunction ''RIP_read''))),
             CondBr (ICmpEQ (ConstantInt 64 0x0FFD False)
                       (Load (Load (VarInFunction ''RIP_read'')))) 0 1]"
    by (simp_all add: v)
  then have "\<exists>s'. LiftIntoBlock [] lifter0 jz_instr state0 = Inr (False, s')
        \<and> blocks_F s' =
            [\<lparr>block_name = ''branch_taken'',
              block_insts = [TerminatingTailCall (Function ''block_0xffd'')]\<rparr>,
             \<lparr>block_name = ''fall_through'',
              block_insts = [TerminatingTailCall (Function ''block_other'')]\<rparr>]
        \<and> last (insts_B s') =
            CondBr (ICmpEQ (ConstantInt 64 0x0FFD False)
                       (Load (Load (VarInFunction ''RIP_read'')))) 0 1"
    using r by auto
  moreover from t have "TargetPC jz_instr = Inr 0x0FFD
   \<and> (\<exists>st'. LiftConditionalBranch lifter0 jz_instr state0 = Inr st'
        \<and> blocks_F st' =
            [\<lparr>block_name = ''branch_taken'',
              block_insts = [TerminatingTailCall (Function ''block_0xffd'')]\<rparr>,
             \<lparr>block_name = ''fall_through'',
              block_insts = [TerminatingTailCall (Function ''block_other'')]\<rparr>]
        \<and> insts_B st' =
            [Load (VarInFunction ''RIP_read''), Load (Load (VarInFunction ''RIP_read'')),
             ICmpEQ (ConstantInt 64 0x0FFD False) (Load (Load (VarInFunction ''RIP_read''))),
             CondBr (ICmpEQ (ConstantInt 64 0x0FFD False)
                       (Load (Load (VarInFunction ''RIP_read'')))) 0 1])"
    by (simp add: v)
  ultimately show ?thesis using jz_IsBranch v(10) by blast
qed

subsection \<open>C6: the second immediate\<close>



subsection \<open>C7: the stack pointer as the base of a pop\<close>

text \<open>
  Claim C7. For a memory operand of a \<open>POP\<close> whose base register lies in the family of
  the stack pointer, the base value that enters the address computation is the value of
  that register, read through its read slot and zero-extended when it is narrower than
  the address width, plus the address width divided by 8; the address is that base value
  plus index times scale plus the displacement. At an address width of 64 the constant
  added is 8.
\<close>

theorem C7_pop_base_value:
  fixes I :: Instr and k :: nat and st :: lift_state
  defines "w \<equiv> xed_decoded_inst_get_machine_mode_bits I"
  defines "base \<equiv> xed_decoded_inst_get_base_reg I k"
  defines "sp \<equiv> fst (RegToValue w base st)"
  defines "B \<equiv> fst (fst (LiftMemory_sum I k st))"
  assumes "iclass I = XED_ICLASS_POP"
    and "xed_get_largest_enclosing_register base = XED_REG_RSP"
  shows "B = Add sp (ConstantInt w (of_nat (w div 8)) False)
    \<and> sp = (if xed_get_register_width_bits64 base < w
            then ZExt (Load (Load (VarInFunction (xed_reg_enum_t2str base @ ''_read'')))) w
            else Load (Load (VarInFunction (xed_reg_enum_t2str base @ ''_read''))))
    \<and> B \<in> set (insts_B (snd (LiftMemory_sum I k st)))
    \<and> fst (LiftMemory_A I k st) =
        Add (Add B (Mul (fst (RegToValue w (xed_decoded_inst_get_index_reg I k) st))
                        (ConstantInt w (of_nat (xed_decoded_inst_get_scale I k)) True)))
            (if 32 < w
             then SExt (ConstantInt 32 (xed_decoded_inst_get_memory_displacement I k) True) w
             else ConstantInt 32 (xed_decoded_inst_get_memory_displacement I k) True)
    \<and> (w = 64 \<longrightarrow> B = Add sp (ConstantInt 64 8 False))"
proof -
  have fam: "base \<in> stack_pointer_family"
    using assms(6) by (simp add: largest_enclosing_RSP)
  then have nz: "base \<noteq> XED_REG_INVALID" and nr: "base \<noteq> XED_REG_RIP"
    by (auto simp: stack_pointer_family_def)
  obtain xs1 where r1: "RegToValue w base st =
      (spec_register_value w base, st\<lparr>insts_B := insts_B st @ xs1\<rparr>)"
    using RegToValue_eq by blast
  obtain xs2 where r2:
    "RegToValue w (xed_decoded_inst_get_index_reg I k) (st\<lparr>insts_B := insts_B st @ xs1\<rparr>) =
      (spec_register_value w (xed_decoded_inst_get_index_reg I k),
       st\<lparr>insts_B := insts_B st @ xs1 @ xs2\<rparr>)"
    using RegToValue_eq [of w "xed_decoded_inst_get_index_reg I k"
        "st\<lparr>insts_B := insts_B st @ xs1\<rparr>"]
    by auto
  have sp: "sp = spec_register_value w base"
    by (simp add: sp_def RegToValue_fst)
  have b: "B = Add sp (ConstantInt w (of_nat (w div 8)) False)"
    using assms(5,6) r1 r2
    by (simp add: B_def LiftMemory_sum_def Let_def ir_Create_def sp flip: w_def base_def)
  have s: "sp = (if xed_get_register_width_bits64 base < w
            then ZExt (Load (Load (VarInFunction (xed_reg_enum_t2str base @ ''_read'')))) w
            else Load (Load (VarInFunction (xed_reg_enum_t2str base @ ''_read''))))"
    using nz by (simp add: sp spec_register_value_def)
  have m: "B \<in> set (insts_B (snd (LiftMemory_sum I k st)))"
    using assms(5,6) r1 r2
    by (simp add: b LiftMemory_sum_def Let_def ir_Create_def sp flip: w_def base_def)
  have a: "fst (LiftMemory_A I k st) =
        Add (Add B (Mul (fst (RegToValue w (xed_decoded_inst_get_index_reg I k) st))
                        (ConstantInt w (of_nat (xed_decoded_inst_get_scale I k)) True)))
            (if 32 < w
             then SExt (ConstantInt 32 (xed_decoded_inst_get_memory_displacement I k) True) w
             else ConstantInt 32 (xed_decoded_inst_get_memory_displacement I k) True)"
    using nz nr assms(5,6) r1 r2
    by (simp add: LiftMemory_A_def b LiftMemory_sum_def Let_def ir_Create_def sp
        RegToValue_fst flip: w_def base_def)
  have e: "w = 64 \<longrightarrow> B = Add sp (ConstantInt 64 8 False)"
    using b by simp
  from b s m a e show ?thesis by blast
qed

theorem C7_pop_base_value_witness:
  "iclass pop_instr = XED_ICLASS_POP
   \<and> xed_get_largest_enclosing_register (xed_decoded_inst_get_base_reg pop_instr 0) = XED_REG_RSP
   \<and> fst (fst (LiftMemory_sum pop_instr 0 state0)) =
       Add (Load (Load (VarInFunction ''RSP_read''))) (ConstantInt 64 8 False)
   \<and> fst (LiftMemory_A pop_instr 0 state0) =
       Add (Add (Add (Load (Load (VarInFunction ''RSP_read''))) (ConstantInt 64 8 False))
                (Mul (ConstantInt 64 0 False) (ConstantInt 64 1 True)))
           (SExt (ConstantInt 32 16 True) 64)"
proof -
  note t = C7_pop_base_value [OF pop_hyps, of state0]
  have v: "xed_decoded_inst_get_machine_mode_bits pop_instr = 64"
    "xed_decoded_inst_get_base_reg pop_instr 0 = XED_REG_RSP"
    "xed_decoded_inst_get_index_reg pop_instr 0 = XED_REG_INVALID"
    "xed_decoded_inst_get_scale pop_instr 0 = 1"
    "xed_decoded_inst_get_memory_displacement pop_instr 0 = 16"
    by (simp_all add: pop_instr_def nop_instr_def)
  have r: "fst (RegToValue 64 XED_REG_RSP state0) = Load (Load (VarInFunction ''RSP_read''))"
    "fst (RegToValue 64 XED_REG_INVALID state0) = ConstantInt 64 0 False"
    by (simp_all add: RegToValue_def ir_Create_def Let_def)
  from t pop_hyps show ?thesis
    by (simp add: v r)
qed

subsection \<open>C8: segments\<close>

text \<open>
  Claim C8. The address of a memory operand is passed through the segmented-address
  helper exactly when its address-space tag is not 0: then the helper is called on the
  machine state, the address and the tag, and the result of the call is the address that
  enters the argument list; otherwise the address enters the list as it was computed, and
  the computation of the address calls nothing. The tag is 256 for a \<open>GS\<close> override and
  257 for an \<open>FS\<close> override, 0 for any other segment, and 0 for an address-generation
  operand whatever its segment.
\<close>

theorem C8_segmented_address:
  fixes lifter :: Lifter and I :: Instr and xedo :: xed_operand_t and st :: lift_state
  defines "name \<equiv> xed_operand_name xedo"
  defines "k \<equiv> (if name = XED_OPERAND_MEM1 then 1 else 0)"
  defines "seg \<equiv> xed_decoded_inst_get_seg_reg I k"
  defines "tag \<equiv> AddressSpace seg name"
  defines "A \<equiv> fst (LiftMemory_A I k st)"
  defines "st1 \<equiv> snd (LiftMemory_A I k st)"
  defines "routed \<equiv>
     Call (compute_address lifter) [StatePointer, A, ConstantInt 32 (of_nat tag) True]"
  defines "push \<equiv> \<lambda>v s. s\<lparr>args := args s @
     (if xed_operand_written xedo then [v] else []) @
     (if xed_operand_read xedo then [v] else [])\<rparr>"
  shows "(name = XED_OPERAND_AGEN \<longrightarrow> tag = 0)
    \<and> (name \<noteq> XED_OPERAND_AGEN \<and> seg = XED_REG_GS \<longrightarrow> tag = 256)
    \<and> (name \<noteq> XED_OPERAND_AGEN \<and> seg = XED_REG_FS \<longrightarrow> tag = 257)
    \<and> (seg \<noteq> XED_REG_GS \<and> seg \<noteq> XED_REG_FS \<longrightarrow> tag = 0)
    \<and> (tag \<noteq> 0 \<longrightarrow>
         LiftMemory lifter I xedo n st = push routed (st1\<lparr>insts_B := insts_B st1 @ [routed]\<rparr>))
    \<and> (tag = 0 \<longrightarrow> LiftMemory lifter I xedo n st = push A st1)
    \<and> (\<forall>f xs. A \<noteq> Call f xs)
    \<and> (\<forall>f xs. Call f xs \<notin> set (drop (length (insts_B st)) (insts_B st1)))"
proof -
  have t: "(name = XED_OPERAND_AGEN \<longrightarrow> tag = 0)
    \<and> (name \<noteq> XED_OPERAND_AGEN \<and> seg = XED_REG_GS \<longrightarrow> tag = 256)
    \<and> (name \<noteq> XED_OPERAND_AGEN \<and> seg = XED_REG_FS \<longrightarrow> tag = 257)
    \<and> (seg \<noteq> XED_REG_GS \<and> seg \<noteq> XED_REG_FS \<longrightarrow> tag = 0)"
    by (simp add: tag_def AddressSpace_def)
  have p: "LiftMemory_A I k st = (A, st1)"
    by (simp add: A_def st1_def)
  have r: "tag \<noteq> 0 \<longrightarrow>
         LiftMemory lifter I xedo n st = push routed (st1\<lparr>insts_B := insts_B st1 @ [routed]\<rparr>)"
    using p
    by (simp add: LiftMemory_def Let_def ir_Create_def args_push_back_def push_def routed_def
        flip: name_def k_def seg_def tag_def)
  have z: "tag = 0 \<longrightarrow> LiftMemory lifter I xedo n st = push A st1"
    using p
    by (simp add: LiftMemory_def Let_def ir_Create_def args_push_back_def push_def
        flip: name_def k_def seg_def tag_def)
  have a: "\<forall>f xs. A \<noteq> Call f xs"
    using LiftMemory_A_eq [of I k st] by (auto simp: A_def spec_address_no_Call)
  have c: "\<forall>f xs. Call f xs \<notin> set (drop (length (insts_B st)) (insts_B st1))"
    by (simp add: st1_def LiftMemory_A_no_Call)
  from t r z a c show ?thesis by blast
qed

theorem C8_segmented_address_witness:
  "xed_operand_name (xed_inst_operand add_gs_instr 0) \<noteq> XED_OPERAND_AGEN
   \<and> xed_decoded_inst_get_seg_reg add_gs_instr 0 = XED_REG_GS
   \<and> AddressSpace XED_REG_GS XED_OPERAND_MEM0 = 256
   \<and> AddressSpace XED_REG_FS XED_OPERAND_MEM0 = 257
   \<and> AddressSpace XED_REG_GS XED_OPERAND_AGEN = 0
   \<and> AddressSpace XED_REG_INVALID XED_OPERAND_MEM0 = 0
   \<and> args (LiftMemory lifter0 add_gs_instr (xed_inst_operand add_gs_instr 0) 0 state0) =
       [Call (Function ''__mcsema_compute_address'')
          [StatePointer,
           Add (Add (Load (Load (VarInFunction ''RAX_read'')))
                    (Mul (ConstantInt 64 0 False) (ConstantInt 64 1 True)))
               (SExt (ConstantInt 32 16 True) 64),
           ConstantInt 32 256 True],
        Call (Function ''__mcsema_compute_address'')
          [StatePointer,
           Add (Add (Load (Load (VarInFunction ''RAX_read'')))
                    (Mul (ConstantInt 64 0 False) (ConstantInt 64 1 True)))
               (SExt (ConstantInt 32 16 True) 64),
           ConstantInt 32 256 True]]
   \<and> xed_decoded_inst_get_seg_reg pop_instr 0 = XED_REG_INVALID
   \<and> args (LiftMemory lifter0 pop_instr (xed_inst_operand pop_instr 0) 0 state0) =
       [Add (Add (Add (Load (Load (VarInFunction ''RSP_read''))) (ConstantInt 64 8 False))
                 (Mul (ConstantInt 64 0 False) (ConstantInt 64 1 True)))
            (SExt (ConstantInt 32 16 True) 64)]"
proof -
  let ?mem = "operand XED_OPERAND_MEM0 XED_OPVIS_EXPLICIT True True"
  let ?agen = "operand XED_OPERAND_AGEN XED_OPVIS_EXPLICIT True True"
  let ?popmem = "operand XED_OPERAND_MEM0 XED_OPVIS_EXPLICIT False True"
  let ?fs = "add_gs_instr\<lparr>xed_decoded_inst_get_seg_reg := (\<lambda>n. XED_REG_FS)\<rparr>"
  have o: "xed_inst_operand add_gs_instr 0 = ?mem"
    "xed_decoded_inst_get_seg_reg add_gs_instr 0 = XED_REG_GS"
    "xed_inst_operand pop_instr 0 = ?popmem"
    "xed_decoded_inst_get_seg_reg pop_instr 0 = XED_REG_INVALID"
    "xed_decoded_inst_get_seg_reg ?fs 0 = XED_REG_FS"
    by (simp_all add: add_gs_instr_def pop_instr_def nop_instr_def)
  note t = C8_segmented_address [where xedo = ?mem
      and I = add_gs_instr and st = state0 and lifter = lifter0 and n = 0]
  note g = C8_segmented_address [where xedo = ?agen
      and I = add_gs_instr and st = state0 and lifter = lifter0 and n = 0]
  note f = C8_segmented_address [where xedo = ?mem
      and I = ?fs and st = state0 and lifter = lifter0 and n = 0]
  note p = C8_segmented_address [where xedo = ?popmem
      and I = pop_instr and st = state0 and lifter = lifter0 and n = 0]
  have n: "xed_operand_name ?mem = XED_OPERAND_MEM0"
    "xed_operand_name ?agen = XED_OPERAND_AGEN"
    "xed_operand_name ?popmem = XED_OPERAND_MEM0"
    "xed_operand_written ?mem" "xed_operand_read ?mem"
    "xed_operand_written ?popmem" "\<not> xed_operand_read ?popmem"
    by (simp_all add: operand_def)
  have c: "compute_address lifter0 = Function ''__mcsema_compute_address''"
    "args state0 = []"
    by (simp_all add: lifter0_def state0_def)
  have t256: "AddressSpace XED_REG_GS XED_OPERAND_MEM0 = 256"
    using t by (simp add: n o)
  have t257: "AddressSpace XED_REG_FS XED_OPERAND_MEM0 = 257"
    using f by (simp add: n o)
  have a0: "AddressSpace XED_REG_GS XED_OPERAND_AGEN = 0"
    using g by (simp add: n o)
  have i0: "AddressSpace XED_REG_INVALID XED_OPERAND_MEM0 = 0"
    using p by (simp add: n o)
  have r1: "args (LiftMemory lifter0 add_gs_instr ?mem 0 state0) =
       [Call (Function ''__mcsema_compute_address'')
          [StatePointer,
           Add (Add (Load (Load (VarInFunction ''RAX_read'')))
                    (Mul (ConstantInt 64 0 False) (ConstantInt 64 1 True)))
               (SExt (ConstantInt 32 16 True) 64),
           ConstantInt 32 256 True],
        Call (Function ''__mcsema_compute_address'')
          [StatePointer,
           Add (Add (Load (Load (VarInFunction ''RAX_read'')))
                    (Mul (ConstantInt 64 0 False) (ConstantInt 64 1 True)))
               (SExt (ConstantInt 32 16 True) 64),
           ConstantInt 32 256 True]]"
    using t by (simp add: n o t256 add_gs_LiftMemory_A c)
  have r2: "args (LiftMemory lifter0 pop_instr ?popmem 0 state0) =
       [Add (Add (Add (Load (Load (VarInFunction ''RSP_read''))) (ConstantInt 64 8 False))
                 (Mul (ConstantInt 64 0 False) (ConstantInt 64 1 True)))
            (SExt (ConstantInt 32 16 True) 64)]"
    using p by (simp add: n o i0 pop_LiftMemory_A c)
  from t256 t257 a0 i0 r1 r2 show ?thesis by (simp add: o n)
qed

subsection \<open>C10: the n-th set index of a mask\<close>

text \<open>
  Claim C10. For every mask, value and integer \<open>n\<close>, \<open>GMask::Nth(n, val)\<close> returns the index
  \<open>i\<close> exactly when \<open>NthIndex(mask, val, n, offset)\<close> returns true with \<open>offset\<close> set to
  \<open>i\<close>; that index is the zero-based \<open>n\<close>-th index whose element equals \<open>val\<close>; neither
  returns a result for negative \<open>n\<close>; and \<open>NthIndex\<close> leaves \<open>offset\<close> as it was when it
  returns false.
\<close>

theorem C10_Nth_refines_NthIndex:
  "(Nth msk n val = Some i \<longleftrightarrow> NthIndex msk val n offset = (True, i))
   \<and> Nth msk n val = nth_matching_index msk val n
   \<and> (n < 0 \<longrightarrow> Nth msk n val = None \<and> NthIndex msk val n offset = (False, offset))
   \<and> (\<not> fst (NthIndex msk val n offset) \<longrightarrow> snd (NthIndex msk val n offset) = offset)"
proof -
  have a: "Nth msk n val = Some i \<longleftrightarrow> NthIndex msk val n offset = (True, i)"
    by (simp add: NthIndex_Nth split: option.split)
  have b: "Nth msk n val = nth_matching_index msk val n"
    by (rule Nth_nth_matching_index)
  have c: "n < 0 \<longrightarrow> Nth msk n val = None \<and> NthIndex msk val n offset = (False, offset)"
    by (simp add: Nth_def NthIndex_def)
  have d: "\<not> fst (NthIndex msk val n offset) \<longrightarrow> snd (NthIndex msk val n offset) = offset"
    by (simp add: NthIndex_Nth split: option.split)
  from a b c d show ?thesis by blast
qed

theorem C10_Nth_refines_NthIndex_witness:
  "Nth [False, True, False, True] 1 True = Some 3
   \<and> NthIndex [False, True, False, True] True 1 7 = (True, 3)
   \<and> (- 1 :: int) < 0
   \<and> Nth [False, True, False, True] (- 1) True = None
   \<and> NthIndex [False, True, False, True] True (- 1) 7 = (False, 7)
   \<and> \<not> fst (NthIndex [False, True, False, True] True 2 7)
   \<and> snd (NthIndex [False, True, False, True] True 2 7) = 7"
proof -
  have m: "matching_indices [False, True, False, True] True = [1, 3]"
    by (simp add: matching_indices_def upt_conv_Cons)
  have n1: "nth_matching_index [False, True, False, True] True 1 = Some 3"
    by (simp add: nth_matching_index_def m)
  have n2: "nth_matching_index [False, True, False, True] True 2 = None"
    by (simp add: nth_matching_index_def m)
  note t1 = C10_Nth_refines_NthIndex [of "[False, True, False, True]" 1 True 3 7]
  note t2 = C10_Nth_refines_NthIndex [of "[False, True, False, True]" "- 1" True 0 7]
  note t3 = C10_Nth_refines_NthIndex [of "[False, True, False, True]" 2 True 0 7]
  have s1: "Nth [False, True, False, True] 1 True = Some 3" using t1 n1 by simp
  have s2: "NthIndex [False, True, False, True] True 1 7 = (True, 3)" using t1 s1 by simp
  have s3: "Nth [False, True, False, True] (- 1) True = None
            \<and> NthIndex [False, True, False, True] True (- 1) 7 = (False, 7)"
  proof -
    have neg: "(- 1 :: int) < 0" by simp
    with t2 show ?thesis by blast
  qed
  have s4: "Nth [False, True, False, True] 2 True = None" using t3 n2 by simp
  have s5: "\<not> fst (NthIndex [False, True, False, True] True 2 7)"
    using s4 by (simp add: NthIndex_Nth)
  have s6: "snd (NthIndex [False, True, False, True] True 2 7) = 7" using t3 s5 by blast
  from s1 s2 s3 s5 s6 show ?thesis by simp
qed

end
